theory Spec2Isabelle
  imports Complex_Main "HOL-Library.Word"
begin

unbundle bit_operations_syntax

section \<open>JavaScript values\<close>

text \<open>
  The streaming events and agent payloads are untyped at run time: the decoder returns
  whatever \<^verbatim>\<open>JSON.parse\<close> produced and the call sites pass it on with
  \<^verbatim>\<open>streamEvent as any\<close>. They are modelled as a datatype of JavaScript values.
  A number is represented by its exact value; \<^verbatim>\<open>-0\<close> and \<^verbatim>\<open>0\<close> coincide (both are
  falsy and strictly equal). Strings are lists of code units below 256. An object is an
  association list with distinct keys, in insertion order.
\<close>

datatype jsval =
    JUndefined
  | JNull
  | JBool bool
  | JNum rat
  | JStr string
  | JArr "jsval list"
  | JObj "(string \<times> jsval) list"

datatype js_error = TypeError | SyntaxError | Error string

text \<open>Truthiness, as used by \<^verbatim>\<open>!x\<close>, \<^verbatim>\<open>x || y\<close>, \<^verbatim>\<open>x && y\<close> and \<^verbatim>\<open>if (x)\<close>.\<close>

fun truthy :: "jsval \<Rightarrow> bool" where
  "truthy JUndefined = False"
| "truthy JNull = False"
| "truthy (JBool b) = b"
| "truthy (JNum n) = (n \<noteq> 0)"
| "truthy (JStr s) = (s \<noteq> [])"
| "truthy (JArr xs) = True"
| "truthy (JObj kvs) = True"

text \<open>
  Property read \<^verbatim>\<open>v.k\<close>. Reading a property of \<^verbatim>\<open>null\<close> or \<^verbatim>\<open>undefined\<close> throws a
  TypeError; a missing property is \<^verbatim>\<open>undefined\<close>. None of the property names the code
  reads from event data (\<^verbatim>\<open>type\<close>, \<^verbatim>\<open>data\<close>, \<^verbatim>\<open>agent\<close>, \<^verbatim>\<open>agent_type\<close>, \<^verbatim>\<open>success\<close>,
  \<^verbatim>\<open>result\<close>, the payload fields) exists on a primitive, an array or a prototype, so
  these yield \<^verbatim>\<open>undefined\<close>.
\<close>

fun get_prop :: "jsval \<Rightarrow> string \<Rightarrow> js_error + jsval" where
  "get_prop JUndefined k = Inl TypeError"
| "get_prop JNull k = Inl TypeError"
| "get_prop (JObj kvs) k = Inr (case map_of kvs k of None \<Rightarrow> JUndefined | Some v \<Rightarrow> v)"
| "get_prop v k = Inr JUndefined"

text \<open>\<^verbatim>\<open>a || b\<close> on values.\<close>

definition js_or :: "jsval \<Rightarrow> jsval \<Rightarrow> jsval" where
  "js_or a b = (if truthy a then a else b)"

text \<open>
  Equality of a stored value with a value taken from a freshly decoded event, as computed
  by \<^verbatim>\<open>Array.prototype.includes\<close> (SameValueZero) and by \<^verbatim>\<open>!==\<close>. Primitives compare
  by value. An object or array that \<^verbatim>\<open>JSON.parse\<close> has just built is identical to no
  value stored earlier.
\<close>

fun is_primitive :: "jsval \<Rightarrow> bool" where
  "is_primitive (JArr xs) = False"
| "is_primitive (JObj kvs) = False"
| "is_primitive v = True"

definition strict_equals :: "jsval \<Rightarrow> jsval \<Rightarrow> bool" where
  "strict_equals a b = (is_primitive b \<and> a = b)"

definition array_includes :: "jsval list \<Rightarrow> jsval \<Rightarrow> bool" where
  "array_includes xs v = list_ex (\<lambda>a. strict_equals a v) xs"

section \<open>The aggregate and the parser (lib/utils/agent-data-parser.ts)\<close>

text \<open>
  \<^verbatim>\<open>AgentResults\<close>: the four optional payload slots and the counters. An absent slot is
  \<open>None\<close>.
\<close>

record AgentResults =
  listings :: "jsval option"
  research :: "jsval option"
  sentiment :: "jsval option"
  media :: "jsval option"
  total_agents :: nat
  completed_agents :: nat
  active_agents :: "jsval list"
  last_updated :: string

text \<open>
  The parser object: its aggregate and its listener map. The map is kept as the list of its
  keys in insertion order; the callbacks are opaque, so each call of one is recorded in
  \<open>delivered\<close> as the key together with the snapshot it was handed.
\<close>

record AgentDataParser =
  agentResults :: AgentResults
  listeners :: "string list"
  delivered :: "(string \<times> AgentResults) list"

text \<open>The value both the constructor and \<^verbatim>\<open>reset\<close> assign; \<open>now\<close> is \<^verbatim>\<open>new Date().toISOString()\<close>.\<close>

definition empty_results :: "string \<Rightarrow> AgentResults" where
  "empty_results now =
     \<lparr> listings = None, research = None, sentiment = None, media = None,
       total_agents = 0, completed_agents = 0, active_agents = [],
       last_updated = now \<rparr>"

definition new_AgentDataParser :: "string \<Rightarrow> AgentDataParser" where
  "new_AgentDataParser now =
     \<lparr> agentResults = empty_results now, listeners = [], delivered = [] \<rparr>"

definition getResults :: "AgentDataParser \<Rightarrow> AgentResults" where
  "getResults st = agentResults st"

definition onUpdate :: "string \<Rightarrow> AgentDataParser \<Rightarrow> AgentDataParser" where
  "onUpdate ident st =
     (if ident \<in> set (listeners st) then st
      else st\<lparr>listeners := listeners st @ [ident]\<rparr>)"

definition offUpdate :: "string \<Rightarrow> AgentDataParser \<Rightarrow> AgentDataParser" where
  "offUpdate ident st = st\<lparr>listeners := filter (\<lambda>k. k \<noteq> ident) (listeners st)\<rparr>"

text \<open>
  \<^verbatim>\<open>notifyListeners\<close>: every registered callback is called once with the current results,
  recorded as they are at the time of the call; an exception of a callback is caught and
  logged.
\<close>

definition notifyListeners :: "AgentDataParser \<Rightarrow> AgentDataParser" where
  "notifyListeners st =
     st\<lparr>delivered := delivered st @ map (\<lambda>k. (k, getResults st)) (listeners st)\<rparr>"

definition reset :: "string \<Rightarrow> AgentDataParser \<Rightarrow> AgentDataParser" where
  "reset now st = notifyListeners (st\<lparr>agentResults := empty_results now\<rparr>)"

subsection \<open>handleAgentSpawn\<close>

definition handleAgentSpawn :: "string \<Rightarrow> jsval \<Rightarrow> AgentDataParser \<Rightarrow> js_error + AgentDataParser" where
  "handleAgentSpawn now event st =
     (case get_prop event ''data'' of
        Inl e \<Rightarrow> Inl e
      | Inr d \<Rightarrow>
          (case get_prop d ''agent'' of
             Inl e \<Rightarrow> Inl e
           | Inr agentType \<Rightarrow>
               let r = agentResults st;
                   r1 = (if \<not> array_includes (active_agents r) agentType
                         then r\<lparr>active_agents := active_agents r @ [agentType],
                                total_agents := total_agents r + 1\<rparr>
                         else r);
                   r2 = r1\<lparr>last_updated := now\<rparr>
               in Inr (notifyListeners (st\<lparr>agentResults := r2\<rparr>))))"

subsection \<open>handleAgentComplete\<close>

text \<open>The type guards of lib/types/agent-data.ts: \<^verbatim>\<open>result.agent_type === '...'\<close>.\<close>

definition has_agent_type :: "string \<Rightarrow> jsval \<Rightarrow> js_error + bool" where
  "has_agent_type kind result =
     (case get_prop result ''agent_type'' of
        Inl e \<Rightarrow> Inl e
      | Inr t \<Rightarrow> Inr (t = JStr kind))"

definition isListingsResult :: "jsval \<Rightarrow> js_error + bool" where
  "isListingsResult = has_agent_type ''listings''"

definition isResearchResult :: "jsval \<Rightarrow> js_error + bool" where
  "isResearchResult = has_agent_type ''research''"

definition isSentimentResult :: "jsval \<Rightarrow> js_error + bool" where
  "isSentimentResult = has_agent_type ''sentiment''"

definition isMediaResult :: "jsval \<Rightarrow> js_error + bool" where
  "isMediaResult = has_agent_type ''media''"

text \<open>
  The \<^verbatim>\<open>try\<close> block of \<^verbatim>\<open>handleAgentComplete\<close>: the first guard that holds selects the
  slot, which is assigned unconditionally. An exception is caught and logged, leaving the
  results as they are.
\<close>

definition store_result :: "jsval \<Rightarrow> AgentResults \<Rightarrow> AgentResults" where
  "store_result result r =
     (case isListingsResult result of
        Inl e \<Rightarrow> r
      | Inr True \<Rightarrow> r\<lparr>listings := Some result\<rparr>
      | Inr False \<Rightarrow>
     (case isResearchResult result of
        Inl e \<Rightarrow> r
      | Inr True \<Rightarrow> r\<lparr>research := Some result\<rparr>
      | Inr False \<Rightarrow>
     (case isSentimentResult result of
        Inl e \<Rightarrow> r
      | Inr True \<Rightarrow> r\<lparr>sentiment := Some result\<rparr>
      | Inr False \<Rightarrow>
     (case isMediaResult result of
        Inl e \<Rightarrow> r
      | Inr True \<Rightarrow> r\<lparr>media := Some result\<rparr>
      | Inr False \<Rightarrow> r))))"

definition handleAgentComplete :: "string \<Rightarrow> jsval \<Rightarrow> AgentDataParser \<Rightarrow> js_error + AgentDataParser" where
  "handleAgentComplete now event st =
     (case get_prop event ''data'' of
        Inl e \<Rightarrow> Inl e
      | Inr d \<Rightarrow>
          (case (get_prop d ''agent_type'', get_prop d ''success'', get_prop d ''result'') of
             (Inr agent_type, Inr success, Inr result) \<Rightarrow>
               if \<not> truthy success \<or> \<not> truthy result then Inr st
               else
                 let r = agentResults st;
                     r1 = r\<lparr>active_agents :=
                              filter (\<lambda>agent. \<not> strict_equals agent agent_type) (active_agents r)\<rparr>;
                     r2 = r1\<lparr>completed_agents := completed_agents r1 + 1\<rparr>;
                     r3 = store_result result r2;
                     r4 = r3\<lparr>last_updated := now\<rparr>
                 in Inr (notifyListeners (st\<lparr>agentResults := r4\<rparr>))
           | _ \<Rightarrow> Inl TypeError))"

section \<open>The decoder: parseStreamingEvent\<close>

text \<open>\<^verbatim>\<open>String.prototype.startsWith\<close> and \<^verbatim>\<open>String.prototype.trim\<close>.\<close>

definition startsWith :: "'a list \<Rightarrow> 'a list \<Rightarrow> bool" where
  "startsWith s p = (take (length p) s = p)"

definition js_whitespace :: "char \<Rightarrow> bool" where
  "js_whitespace c =
     (c = CHR 0x09 \<or> c = CHR 0x0A \<or> c = CHR 0x0B \<or> c = CHR 0x0C \<or> c = CHR 0x0D
      \<or> c = CHR 0x20 \<or> c = CHR 0xA0)"

definition trim :: "string \<Rightarrow> string" where
  "trim s = rev (dropWhile js_whitespace (rev (dropWhile js_whitespace s)))"

text \<open>
  \<^verbatim>\<open>JSON.parse\<close> belongs to the platform, not to the repository: the decoder takes it as
  a parameter. It returns the parsed value or throws a SyntaxError.
\<close>

type_synonym json_parse = "string \<Rightarrow> js_error + jsval"

text \<open>
  The decoder. \<open>event_body\<close> is \<^verbatim>\<open>cleanData\<close>, the line without its \<^verbatim>\<open>data: \<close> marker.
  \<open>try_parseStreamingEvent\<close> is the \<^verbatim>\<open>try\<close> block: its result is the parsed value
  itself (\<^verbatim>\<open>parsed as StreamingEvent\<close> is a compile-time cast), \<open>JNull\<close> being the \<^verbatim>\<open>null\<close>
  return. \<open>parseStreamingEvent\<close> adds the \<^verbatim>\<open>catch\<close>, which logs and returns \<^verbatim>\<open>null\<close>.
\<close>

definition event_body :: "string \<Rightarrow> string" where
  "event_body eventData =
     (if startsWith eventData ''data: '' then drop 6 eventData else eventData)"

definition try_parseStreamingEvent :: "json_parse \<Rightarrow> string \<Rightarrow> js_error + jsval" where
  "try_parseStreamingEvent JSON_parse eventData =
     (let cleanData = event_body eventData
      in if trim cleanData = [] \<or> cleanData = ''[DONE]'' then Inr JNull
         else JSON_parse cleanData)"

definition parseStreamingEvent :: "json_parse \<Rightarrow> string \<Rightarrow> jsval" where
  "parseStreamingEvent JSON_parse eventData =
     (case try_parseStreamingEvent JSON_parse eventData of
        Inl e \<Rightarrow> JNull
      | Inr parsed \<Rightarrow> parsed)"

subsection \<open>The call sites: onData\<close>

text \<open>
  components/integrated-chat-interface.tsx and components/vehicle-profile-dashboard-old.tsx
  hand a string value to the decoder and dispatch on \<^verbatim>\<open>streamEvent.type\<close>:
  \<^verbatim>\<open>if (streamEvent) { switch (streamEvent.type) { case 'agent_spawn': ...; case 'agent_complete': ... } }\<close>.
  Any other type is ignored or only logged.
\<close>

definition dispatch_event :: "string \<Rightarrow> jsval \<Rightarrow> AgentDataParser \<Rightarrow> js_error + AgentDataParser" where
  "dispatch_event now streamEvent st =
     (if truthy streamEvent then
        (case get_prop streamEvent ''type'' of
           Inl e \<Rightarrow> Inl e
         | Inr t \<Rightarrow>
             if t = JStr ''agent_spawn'' then handleAgentSpawn now streamEvent st
             else if t = JStr ''agent_complete'' then handleAgentComplete now streamEvent st
             else Inr st)
      else Inr st)"

text \<open>
  The string branch of \<^verbatim>\<open>onData\<close>, with its enclosing \<^verbatim>\<open>try\<close>/\<^verbatim>\<open>catch\<close>: a handler
  throws only before it has changed anything, so a caught exception leaves the parser as
  it was. \<open>apply_event\<close> applies one decoded event, \<open>onData_string\<close> decodes first.
\<close>

definition apply_event :: "string \<Rightarrow> jsval \<Rightarrow> AgentDataParser \<Rightarrow> AgentDataParser" where
  "apply_event now streamEvent st =
     (case dispatch_event now streamEvent st of Inl e \<Rightarrow> st | Inr st' \<Rightarrow> st')"

definition onData_string :: "json_parse \<Rightarrow> string \<Rightarrow> string \<Rightarrow> AgentDataParser \<Rightarrow> AgentDataParser" where
  "onData_string JSON_parse now rawData st =
     apply_event now (parseStreamingEvent JSON_parse rawData) st"

section \<open>State snapshots: parseStateData\<close>

text \<open>
  \<^verbatim>\<open>CarGeekState\<close>, as it arrives: the callers hand \<^verbatim>\<open>parseStateData\<close> any object that
  has \<^verbatim>\<open>agent_data\<close> or \<^verbatim>\<open>current_results\<close>.
  \<^item> \<^verbatim>\<open>agent_data\<close> is a dictionary from agent type to an array of data items, kept as
    an association list in the order of \<^verbatim>\<open>Object.entries\<close>; \<open>None\<close> is an absent (or
    otherwise falsy) dictionary, which \<^verbatim>\<open>if (state.agent_data)\<close> skips. An item array may
    itself be \<^verbatim>\<open>null\<close> or absent (\<open>None\<close>), which \<^verbatim>\<open>dataItems && ...\<close> skips.
  \<^item> \<^verbatim>\<open>active_agents\<close> is whatever value the object holds under that name,
    \<open>JUndefined\<close> when it holds none.
  The fields carry the prefix \<open>st_\<close> because \<open>active_agents\<close> also names a field of the
  results.
\<close>

record CarGeekState =
  st_agent_data :: "(string \<times> jsval list option) list option"
  st_agent_metadata :: jsval
  st_active_agents :: jsval
  st_current_analysis :: jsval
  st_session_id :: string
  st_user_context :: jsval
  st_current_results :: jsval

text \<open>Decimal digits of a number, as a template literal prints \<^verbatim>\<open>Date.now()\<close> or a status.\<close>

fun show_nat :: "nat \<Rightarrow> string" where
  "show_nat n =
     (if n < 10 then [char_of (48 + n)]
      else show_nat (n div 10) @ [char_of (48 + n mod 10)])"

declare show_nat.simps [simp del]

text \<open>\<^verbatim>\<open>data.k\<close> for a \<open>data\<close> already known not to be \<^verbatim>\<open>null\<close> or \<^verbatim>\<open>undefined\<close>.\<close>

definition field :: "jsval \<Rightarrow> string \<Rightarrow> jsval" where
  "field data k = (case get_prop data k of Inl e \<Rightarrow> JUndefined | Inr v \<Rightarrow> v)"

definition nullish :: "jsval \<Rightarrow> bool" where
  "nullish v = (v = JUndefined \<or> v = JNull)"

text \<open>
  The four shaping functions. The first property read throws a TypeError on a nullish
  \<open>data\<close>; \<open>now_ms\<close> is \<^verbatim>\<open>Date.now()\<close>.
\<close>

definition parseListingsData :: "nat \<Rightarrow> jsval \<Rightarrow> js_error + jsval" where
  "parseListingsData now_ms data =
     (if nullish data then Inl TypeError
      else Inr (JObj
        [(''agent_type'', JStr ''listings''),
         (''agent_id'', js_or (field data ''agent_id'') (JStr (''listings_'' @ show_nat now_ms))),
         (''success'', JBool True),
         (''total_found'', js_or (field data ''total_found'') (JNum 0)),
         (''returned_count'', js_or (field data ''returned_count'') (JNum 0)),
         (''listings'', js_or (field data ''listings'') (JArr [])),
         (''market_intelligence'', field data ''market_intelligence''),
         (''search_context'', field data ''search_context''),
         (''recommendations'', field data ''recommendations''),
         (''executive_summary'', field data ''executive_summary''),
         (''key_insights'', js_or (field data ''key_insights'') (JArr [])),
         (''search_duration_ms'', field data ''search_duration_ms''),
         (''data_sources'', js_or (field data ''data_sources'') (JArr [])),
         (''warnings'', js_or (field data ''warnings'') (JArr []))]))"

definition parseResearchData :: "nat \<Rightarrow> jsval \<Rightarrow> js_error + jsval" where
  "parseResearchData now_ms data =
     (if nullish data then Inl TypeError
      else Inr (JObj
        [(''agent_type'', JStr ''research''),
         (''agent_id'', js_or (field data ''agent_id'') (JStr (''research_'' @ show_nat now_ms))),
         (''success'', JBool True),
         (''technical_specs'', field data ''technical_specs''),
         (''features'', field data ''features''),
         (''performance'', field data ''performance''),
         (''research_summary'', field data ''research_summary''),
         (''data_sources'', js_or (field data ''data_sources'') (JArr [])),
         (''reliability_rating'', field data ''reliability_rating'')]))"

definition parseSentimentData :: "nat \<Rightarrow> jsval \<Rightarrow> js_error + jsval" where
  "parseSentimentData now_ms data =
     (if nullish data then Inl TypeError
      else Inr (JObj
        [(''agent_type'', JStr ''sentiment''),
         (''agent_id'', js_or (field data ''agent_id'') (JStr (''sentiment_'' @ show_nat now_ms))),
         (''success'', JBool True),
         (''overall_sentiment'', js_or (field data ''overall_sentiment'') (JStr ''neutral'')),
         (''sentiment_score'', js_or (field data ''sentiment_score'') (JNum 0)),
         (''categories'', field data ''categories''),
         (''positive_highlights'', js_or (field data ''positive_highlights'') (JArr [])),
         (''negative_concerns'', js_or (field data ''negative_concerns'') (JArr [])),
         (''common_complaints'', js_or (field data ''common_complaints'') (JArr [])),
         (''owner_recommendations'', js_or (field data ''owner_recommendations'') (JArr [])),
         (''review_count'', field data ''review_count''),
         (''sources'', js_or (field data ''sources'') (JArr [])),
         (''analysis_date'', field data ''analysis_date'')]))"

definition parseMediaData :: "nat \<Rightarrow> jsval \<Rightarrow> js_error + jsval" where
  "parseMediaData now_ms data =
     (if nullish data then Inl TypeError
      else Inr (JObj
        [(''agent_type'', JStr ''media''),
         (''agent_id'', js_or (field data ''agent_id'') (JStr (''media_'' @ show_nat now_ms))),
         (''success'', JBool True),
         (''images'', js_or (field data ''images'') (JArr [])),
         (''videos'', js_or (field data ''videos'') (JArr [])),
         (''galleries'', js_or (field data ''galleries'') (JArr [])),
         (''total_media_count'', js_or (field data ''total_media_count'') (JNum 0)),
         (''media_sources'', js_or (field data ''media_sources'') (JArr [])),
         (''featured_media'', js_or (field data ''featured_media'') (JArr [])),
         (''high_quality_count'', js_or (field data ''high_quality_count'') (JNum 0)),
         (''official_media_count'', js_or (field data ''official_media_count'') (JNum 0))]))"

text \<open>Sequencing of steps that may throw.\<close>

definition and_then :: "js_error + 'a \<Rightarrow> ('a \<Rightarrow> js_error + 'b) \<Rightarrow> js_error + 'b" where
  "and_then m f = (case m of Inl e \<Rightarrow> Inl e | Inr x \<Rightarrow> f x)"

text \<open>
  The \<^verbatim>\<open>switch\<close> inside the \<^verbatim>\<open>try\<close> block of \<^verbatim>\<open>parseStateData\<close>: \<^verbatim>\<open>latestData.data\<close>
  is read and shaped only in the four named cases; any other key falls through the switch.
\<close>

definition switch_agentType :: "nat \<Rightarrow> string \<Rightarrow> jsval \<Rightarrow> AgentResults \<Rightarrow> js_error + AgentResults" where
  "switch_agentType now_ms agentType latestData results =
     (if agentType = ''listings'' then
        and_then (get_prop latestData ''data'') (\<lambda>d.
        and_then (parseListingsData now_ms d) (\<lambda>p. Inr (results\<lparr>listings := Some p\<rparr>)))
      else if agentType = ''research'' then
        and_then (get_prop latestData ''data'') (\<lambda>d.
        and_then (parseResearchData now_ms d) (\<lambda>p. Inr (results\<lparr>research := Some p\<rparr>)))
      else if agentType = ''sentiment'' then
        and_then (get_prop latestData ''data'') (\<lambda>d.
        and_then (parseSentimentData now_ms d) (\<lambda>p. Inr (results\<lparr>sentiment := Some p\<rparr>)))
      else if agentType = ''media'' then
        and_then (get_prop latestData ''data'') (\<lambda>d.
        and_then (parseMediaData now_ms d) (\<lambda>p. Inr (results\<lparr>media := Some p\<rparr>)))
      else Inr results)"

text \<open>
  One iteration of the \<^verbatim>\<open>forEach\<close> over \<^verbatim>\<open>Object.entries(state.agent_data)\<close>: a missing
  or empty item array is skipped; otherwise the last item is shaped and
  \<^verbatim>\<open>completed_agents\<close> is incremented, unless the shaping threw.
\<close>

definition parse_entry :: "nat \<Rightarrow> string \<times> jsval list option \<Rightarrow> AgentResults \<Rightarrow> AgentResults" where
  "parse_entry now_ms entry results =
     (case entry of (agentType, dataItems) \<Rightarrow>
        (case dataItems of
           None \<Rightarrow> results
         | Some items \<Rightarrow>
             if items \<noteq> [] then
               (case switch_agentType now_ms agentType (last items) results of
                  Inl e \<Rightarrow> results
                | Inr results' \<Rightarrow>
                    results'\<lparr>completed_agents := completed_agents results' + 1\<rparr>)
             else results))"

text \<open>
  Array spread \<^verbatim>\<open>[...v]\<close>: the elements of an array, the characters of a string; any
  other value (\<^verbatim>\<open>undefined\<close>, \<^verbatim>\<open>null\<close>, a number, a boolean, a plain object) is not
  iterable and the spread throws a TypeError.
\<close>

fun spread :: "jsval \<Rightarrow> js_error + jsval list" where
  "spread (JArr xs) = Inr xs"
| "spread (JStr s) = Inr (map (\<lambda>c. JStr [c]) s)"
| "spread v = Inl TypeError"

text \<open>
  \<^verbatim>\<open>parseStateData\<close>. The spread of \<^verbatim>\<open>state.active_agents\<close> in the initial object literal
  is outside every \<^verbatim>\<open>try\<close> of the function: if it throws, the function throws.
\<close>

definition parseStateData :: "string \<Rightarrow> nat \<Rightarrow> CarGeekState \<Rightarrow> js_error + AgentResults" where
  "parseStateData now now_ms state =
     (case spread (st_active_agents state) of
        Inl e \<Rightarrow> Inl e
      | Inr agents \<Rightarrow>
          let results0 =
                \<lparr> listings = None, research = None, sentiment = None, media = None,
                  total_agents = 0, completed_agents = 0,
                  active_agents = agents,
                  last_updated = now \<rparr>;
              results1 =
                (case st_agent_data state of
                   None \<Rightarrow> results0
                 | Some entries \<Rightarrow> fold (parse_entry now_ms) entries results0)
          in Inr (results1\<lparr>total_agents :=
                    completed_agents results1 + length (active_agents results1)\<rparr>))"

text \<open>
  components/vehicle-profile-dashboard.tsx and vehicle-profile-dashboard-old.tsx apply a
  snapshot inside a \<^verbatim>\<open>try\<close> block with
  \<^verbatim>\<open>if (data.agent_data || data.current_results) { const parsedResults = agentDataParser.parseStateData(data); setAgentResults(parsedResults); }\<close>
  and a \<^verbatim>\<open>catch\<close> that only logs. An object that carries state replaces the aggregate
  the component shows by the parse result, whatever that aggregate held, unless
  \<^verbatim>\<open>parseStateData\<close> throws: then \<^verbatim>\<open>setAgentResults\<close> is never reached and the aggregate
  stays. Any other object leaves it as it is.
\<close>

definition carries_state :: "CarGeekState \<Rightarrow> bool" where
  "carries_state state = (st_agent_data state \<noteq> None \<or> truthy (st_current_results state))"

definition apply_state_snapshot :: "string \<Rightarrow> nat \<Rightarrow> CarGeekState \<Rightarrow> AgentResults \<Rightarrow> AgentResults" where
  "apply_state_snapshot now now_ms state shown =
     (if carries_state state then
        (case parseStateData now now_ms state of
           Inl e \<Rightarrow> shown
         | Inr parsedResults \<Rightarrow> parsedResults)
      else shown)"

section \<open>The stream proxies\<close>

subsection \<open>Bytes and text: TextDecoder and TextEncoder\<close>

text \<open>
  The body of a response is a stream of \<^verbatim>\<open>Uint8Array\<close> chunks, lists of bytes. Both
  routes turn each chunk into a string with \<^verbatim>\<open>decoder.decode(chunk, { stream: true })\<close>
  and turn strings back into bytes with \<^verbatim>\<open>TextEncoder.encode\<close>. The text that comes out
  of a decoder may hold any character, so here a string is a list of 16-bit code units, as
  in JavaScript. \<^verbatim>\<open>TextDecoder\<close> and \<^verbatim>\<open>TextEncoder\<close> belong to the platform; they are
  modelled after the Encoding Standard.
\<close>

type_synonym byte = "8 word"
type_synonym code_unit = "16 word"

text \<open>A string literal of the source, as code units (or as the bytes of its encoding).\<close>

definition literal :: "string \<Rightarrow> 'a::len word list" where
  "literal s = map of_char s"

definition LF :: "'a::len word" where
  "LF = 0x0A"

text \<open>
  The UTF-8 decoder of the Encoding Standard: its state, and its handler for one byte.
  \<open>lead_byte\<close> is the handler when no continuation byte is needed; an error appends
  U+FFFD to the output (the error mode of \<^verbatim>\<open>new TextDecoder()\<close> is replacement). A byte
  outside the boundaries while continuation bytes are needed is an error, after which the
  byte is restored to the queue and read again by the reset decoder. Whenever no
  continuation byte is needed the decoder is in its initial state. The outputs are scalar
  values.
\<close>

record utf8_decoder =
  code_point :: nat
  bytes_seen :: nat
  bytes_needed :: nat
  lower_boundary :: byte
  upper_boundary :: byte

definition new_utf8_decoder :: utf8_decoder where
  "new_utf8_decoder =
     \<lparr> code_point = 0, bytes_seen = 0, bytes_needed = 0,
       lower_boundary = 0x80, upper_boundary = 0xBF \<rparr>"

definition lead_byte :: "byte \<Rightarrow> utf8_decoder \<times> nat list" where
  "lead_byte b =
     (if b \<le> 0x7F then (new_utf8_decoder, [unat b])
      else if 0xC2 \<le> b \<and> b \<le> 0xDF then
        (new_utf8_decoder\<lparr>bytes_needed := 1, code_point := unat (b AND 0x1F)\<rparr>, [])
      else if 0xE0 \<le> b \<and> b \<le> 0xEF then
        (new_utf8_decoder
           \<lparr>lower_boundary := (if b = 0xE0 then 0xA0 else 0x80),
            upper_boundary := (if b = 0xED then 0x9F else 0xBF),
            bytes_needed := 2, code_point := unat (b AND 0xF)\<rparr>, [])
      else if 0xF0 \<le> b \<and> b \<le> 0xF4 then
        (new_utf8_decoder
           \<lparr>lower_boundary := (if b = 0xF0 then 0x90 else 0x80),
            upper_boundary := (if b = 0xF4 then 0x8F else 0xBF),
            bytes_needed := 3, code_point := unat (b AND 0x7)\<rparr>, [])
      else (new_utf8_decoder, [0xFFFD]))"

definition utf8_step :: "utf8_decoder \<Rightarrow> byte \<Rightarrow> utf8_decoder \<times> nat list" where
  "utf8_step d b =
     (if bytes_needed d = 0 then lead_byte b
      else if b < lower_boundary d \<or> upper_boundary d < b then
        (case lead_byte b of (d', out) \<Rightarrow> (d', 0xFFFD # out))
      else
        (let cp = push_bit 6 (code_point d) OR unat (b AND 0x3F)
         in if bytes_seen d + 1 \<noteq> bytes_needed d then
              (d\<lparr>lower_boundary := 0x80, upper_boundary := 0xBF,
                 code_point := cp, bytes_seen := bytes_seen d + 1\<rparr>, [])
            else (new_utf8_decoder, [cp])))"

text \<open>
  The bytes of one chunk run through the decoder. With \<^verbatim>\<open>stream: true\<close> the end of the
  chunk is not the end of the input: the decoder keeps its state, and with it the bytes of
  an unfinished sequence, for the next call.
\<close>

fun utf8_decode :: "utf8_decoder \<Rightarrow> byte list \<Rightarrow> utf8_decoder \<times> nat list" where
  "utf8_decode d [] = (d, [])"
| "utf8_decode d (b # bs) =
     (case utf8_step d b of
        (d', out) \<Rightarrow> (case utf8_decode d' bs of (d'', rest) \<Rightarrow> (d'', out @ rest)))"

text \<open>
  \<^verbatim>\<open>TextDecoder\<close>: the decoder and the flag \<^verbatim>\<open>BOM seen\<close>. \<open>serialize\<close> is the
  serialization of the output of one call: the first scalar value that the decoder ever
  puts out sets the flag, and is dropped if it is the byte order mark U+FEFF. A scalar
  value above U+FFFF is two code units of the string, a surrogate pair.
\<close>

record TextDecoder =
  td_decoder :: utf8_decoder
  td_BOM_seen :: bool

definition new_TextDecoder :: TextDecoder where
  "new_TextDecoder = \<lparr> td_decoder = new_utf8_decoder, td_BOM_seen = False \<rparr>"

definition serialize :: "bool \<Rightarrow> nat list \<Rightarrow> bool \<times> nat list" where
  "serialize seen output =
     (case output of
        [] \<Rightarrow> (seen, [])
      | item # items \<Rightarrow> if \<not> seen \<and> item = 0xFEFF then (True, items) else (True, output))"

definition code_units :: "nat \<Rightarrow> code_unit list" where
  "code_units cp =
     (if cp < 0x10000 then [of_nat cp]
      else [of_nat (0xD800 + drop_bit 10 (cp - 0x10000)),
            of_nat (0xDC00 + ((cp - 0x10000) AND 0x3FF))])"

text \<open>\<^verbatim>\<open>decoder.decode(input, { stream: true })\<close>: the decoder afterwards and the string.\<close>

definition TextDecoder_decode :: "TextDecoder \<Rightarrow> byte list \<Rightarrow> TextDecoder \<times> code_unit list" where
  "TextDecoder_decode td input =
     (case utf8_decode (td_decoder td) input of
        (d, output) \<Rightarrow>
          (case serialize (td_BOM_seen td) output of
             (seen, scalars) \<Rightarrow>
               (\<lparr> td_decoder = d, td_BOM_seen = seen \<rparr>, concat (map code_units scalars))))"

text \<open>
  \<^verbatim>\<open>new TextEncoder().encode(s)\<close>: the string is read as scalar values, a surrogate
  pair as one and a lone surrogate as U+FFFD, and each is encoded in UTF-8.
\<close>

definition leading_surrogate :: "code_unit \<Rightarrow> bool" where
  "leading_surrogate u = (0xD800 \<le> u \<and> u \<le> 0xDBFF)"

definition trailing_surrogate :: "code_unit \<Rightarrow> bool" where
  "trailing_surrogate u = (0xDC00 \<le> u \<and> u \<le> 0xDFFF)"

fun scalar_values :: "code_unit list \<Rightarrow> nat list" where
  "scalar_values [] = []"
| "scalar_values [u] =
     (if leading_surrogate u \<or> trailing_surrogate u then [0xFFFD] else [unat u])"
| "scalar_values (u # v # vs) =
     (if leading_surrogate u \<and> trailing_surrogate v then
        (0x10000 + push_bit 10 (unat u - 0xD800) + (unat v - 0xDC00)) # scalar_values vs
      else if leading_surrogate u \<or> trailing_surrogate u then 0xFFFD # scalar_values (v # vs)
      else unat u # scalar_values (v # vs))"

definition utf8_encode :: "nat \<Rightarrow> byte list" where
  "utf8_encode cp =
     (if cp \<le> 0x7F then [of_nat cp]
      else if cp \<le> 0x7FF then
        [of_nat (drop_bit 6 cp + 0xC0), of_nat (0x80 OR (cp AND 0x3F))]
      else if cp \<le> 0xFFFF then
        [of_nat (drop_bit 12 cp + 0xE0), of_nat (0x80 OR (drop_bit 6 cp AND 0x3F)),
         of_nat (0x80 OR (cp AND 0x3F))]
      else
        [of_nat (drop_bit 18 cp + 0xF0), of_nat (0x80 OR (drop_bit 12 cp AND 0x3F)),
         of_nat (0x80 OR (drop_bit 6 cp AND 0x3F)), of_nat (0x80 OR (cp AND 0x3F))])"

definition TextEncoder_encode :: "code_unit list \<Rightarrow> byte list" where
  "TextEncoder_encode s = concat (map utf8_encode (scalar_values s))"

text \<open>
  \<^verbatim>\<open>String.prototype.trim\<close> on such a string removes the white space and line
  terminators of ECMAScript from both ends.
\<close>

definition white_space :: "code_unit \<Rightarrow> bool" where
  "white_space u =
     (u \<in> {0x09, 0x0A, 0x0B, 0x0C, 0x0D, 0x20, 0xA0, 0x1680, 0x2028, 0x2029, 0x202F, 0x205F,
            0x3000, 0xFEFF}
      \<or> (0x2000 \<le> u \<and> u \<le> 0x200A))"

definition String_trim :: "code_unit list \<Rightarrow> code_unit list" where
  "String_trim s = rev (dropWhile white_space (rev (dropWhile white_space s)))"

subsection \<open>Requests, upstream responses, responses\<close>

text \<open>
  The request body as the chat transport sends it (\<^verbatim>\<open>prepareSendMessagesRequest\<close>):
  an optional \<^verbatim>\<open>id\<close> and \<^verbatim>\<open>session_id\<close>, a \<^verbatim>\<open>message\<close> that is absent, a string, or a
  message object with optional \<^verbatim>\<open>content\<close> and \<^verbatim>\<open>parts\<close>, and an optional
  \<^verbatim>\<open>user_context\<close> object.
\<close>

record message_part =
  part_type :: string
  part_text :: "string option"

record ui_message =
  msg_content :: "string option"
  msg_parts :: "message_part list option"

datatype message_field = MessageAbsent | MessageString string | MessageObject ui_message

record request_body =
  req_id :: "string option"
  req_session_id :: "string option"
  req_message :: message_field
  req_user_context :: "(string \<times> jsval) list option"

record backend_body =
  bb_message :: string
  bb_session_id :: string
  bb_user_context :: "(string \<times> jsval) list"

text \<open>
  A thrown value: an \<^verbatim>\<open>Error\<close> instance with its message, or something else. The
  awaited operations of the platform (\<^verbatim>\<open>request.json()\<close>, \<^verbatim>\<open>fetch\<close>, \<^verbatim>\<open>reader.read()\<close>)
  are inputs of the model, given by their outcome.
\<close>

datatype thrown = ErrorObject string | OtherValue

datatype stream_end = Done | ReadFailed thrown

record upstream_response =
  up_status :: nat
  up_chunks :: "byte list list"
  up_end :: stream_end

text \<open>\<^verbatim>\<open>Response.ok\<close>: the status is in the range 200 to 299.\<close>

definition ok :: "upstream_response \<Rightarrow> bool" where
  "ok r = (200 \<le> up_status r \<and> up_status r \<le> 299)"

datatype stream_state = Closed | Errored

datatype response_body = Text string | Stream "byte list list" stream_state

record response =
  resp_status :: nat
  resp_headers :: "(string \<times> string) list"
  resp_body :: response_body

text \<open>\<^verbatim>\<open>error instanceof Error ? error.message : 'Unknown error'\<close>.\<close>

definition error_message :: "thrown \<Rightarrow> string" where
  "error_message e = (case e of ErrorObject m \<Rightarrow> m | OtherValue \<Rightarrow> ''Unknown error'')"

text \<open>\<^verbatim>\<open>a || b\<close> on optional strings: an absent or empty string is falsy.\<close>

definition str_or :: "string option \<Rightarrow> string \<Rightarrow> string" where
  "str_or a b = (case a of None \<Rightarrow> b | Some s \<Rightarrow> if s = [] then b else s)"

text \<open>\<^verbatim>\<open>Array.prototype.join\<close> on strings.\<close>

fun join :: "string \<Rightarrow> string list \<Rightarrow> string" where
  "join sep [] = []"
| "join sep [x] = x"
| "join sep (x # y # ys) = x @ sep @ join sep (y # ys)"

text \<open>
  \<^verbatim>\<open>body.message.parts.filter(p => p.type === 'text').map(p => p.text || '').join(' ')\<close>.
\<close>

definition text_of_parts :: "message_part list \<Rightarrow> string" where
  "text_of_parts parts =
     join '' '' (map (\<lambda>p. str_or (part_text p) [])
                    (filter (\<lambda>p. part_type p = ''text'') parts))"

text \<open>\<^verbatim>\<open>JSON.stringify\<close> of a string: quoted, with the escapes of the JSON grammar.\<close>

definition hex_digit :: "nat \<Rightarrow> char" where
  "hex_digit n = (if n < 10 then char_of (48 + n) else char_of (87 + n))"

definition json_escape_char :: "char \<Rightarrow> string" where
  "json_escape_char c =
     (if c = CHR 0x22 then [CHR 0x5C, CHR 0x22]
      else if c = CHR 0x5C then [CHR 0x5C, CHR 0x5C]
      else if c = CHR 0x08 then [CHR 0x5C, CHR ''b'']
      else if c = CHR 0x0C then [CHR 0x5C, CHR ''f'']
      else if c = CHR 0x0A then [CHR 0x5C, CHR ''n'']
      else if c = CHR 0x0D then [CHR 0x5C, CHR ''r'']
      else if c = CHR 0x09 then [CHR 0x5C, CHR ''t'']
      else if of_char c < (32::nat)
        then [CHR 0x5C, CHR ''u'', CHR ''0'', CHR ''0'',
              hex_digit (of_char c div 16), hex_digit (of_char c mod 16)]
      else [c])"

definition json_string :: "string \<Rightarrow> string" where
  "json_string s = [CHR 0x22] @ concat (map json_escape_char s) @ [CHR 0x22]"

subsection \<open>The chat-stream endpoint (api/cargeek-stream)\<close>

definition cargeek_message :: "request_body \<Rightarrow> string" where
  "cargeek_message body =
     (case req_message body of
        MessageObject m \<Rightarrow> (case msg_parts m of Some parts \<Rightarrow> text_of_parts parts | None \<Rightarrow> [])
      | MessageString s \<Rightarrow> s
      | MessageAbsent \<Rightarrow> [])"

definition cargeek_backendBody :: "nat \<Rightarrow> request_body \<Rightarrow> backend_body" where
  "cargeek_backendBody now_ms body =
     \<lparr> bb_message = cargeek_message body,
       bb_session_id =
         str_or (req_id body) (str_or (req_session_id body) (''session-'' @ show_nat now_ms)),
       bb_user_context = (case req_user_context body of Some c \<Rightarrow> c | None \<Rightarrow> []) \<rparr>"

text \<open>\<^verbatim>\<open>String.prototype.split\<close> on a one-character separator: never an empty list.\<close>

fun split :: "'a \<Rightarrow> 'a list \<Rightarrow> 'a list list" where
  "split sep [] = [[]]"
| "split sep (c # cs) =
     (if c = sep then [] # split sep cs
      else (case split sep cs of
              [] \<Rightarrow> [[c]]
            | piece # pieces \<Rightarrow> (c # piece) # pieces))"

definition newline :: char where
  "newline = CHR 0x0A"

text \<open>
  The \<^verbatim>\<open>TransformStream\<close>. Its closure holds the \<^verbatim>\<open>TextDecoder\<close> and the buffer.
  \<^verbatim>\<open>transform\<close> decodes the chunk, appends the text to the buffer, splits at newlines,
  keeps the last piece as the new buffer and, for each complete line that starts with
  \<^verbatim>\<open>data: \<close>, enqueues the encoding of \<^verbatim>\<open>data: \<close>, the rest of the line and two
  newlines; the \<^verbatim>\<open>JSON.parse\<close> inside it only feeds the log and its exception is caught.
  The result is the decoder, the new buffer and the chunks enqueued. \<^verbatim>\<open>flush\<close> looks at
  the buffer only: the decoder is never asked for what it still holds.
\<close>

definition transform ::
  "TextDecoder \<Rightarrow> code_unit list \<Rightarrow> byte list
     \<Rightarrow> TextDecoder \<times> code_unit list \<times> byte list list" where
  "transform decoder buffer chunk =
     (case TextDecoder_decode decoder chunk of
        (decoder', text) \<Rightarrow>
          (let lines = split LF (buffer @ text)
           in (decoder', last lines,
               map (\<lambda>line. TextEncoder_encode (literal ''data: '' @ drop 6 line @ [LF, LF]))
                 (filter (\<lambda>line. startsWith line (literal ''data: '')) (butlast lines)))))"

definition flush :: "code_unit list \<Rightarrow> byte list list" where
  "flush buffer =
     (if String_trim buffer \<noteq> [] then
        (if startsWith buffer (literal ''data: '')
         then [TextEncoder_encode (buffer @ [LF, LF])] else [])
      else [])"

text \<open>\<^verbatim>\<open>String.prototype.includes\<close>.\<close>

fun str_includes :: "string \<Rightarrow> string \<Rightarrow> bool" where
  "str_includes [] p = (p = [])"
| "str_includes (c # cs) p = (startsWith (c # cs) p \<or> str_includes cs p)"

text \<open>
  The pump loop: every chunk read is written through \<^verbatim>\<open>transform\<close>. At the end of the
  upstream the writer is closed, which runs \<^verbatim>\<open>flush\<close>; a read error whose message
  contains \<^verbatim>\<open>timeout\<close> closes the same way, any other aborts the stream.
\<close>

fun pump ::
  "TextDecoder \<Rightarrow> code_unit list \<Rightarrow> byte list list \<Rightarrow> stream_end
     \<Rightarrow> byte list list \<times> stream_state" where
  "pump decoder buffer [] Done = (flush buffer, Closed)"
| "pump decoder buffer [] (ReadFailed e) =
     (case e of
        ErrorObject m \<Rightarrow>
          if str_includes m ''timeout'' then (flush buffer, Closed) else ([], Errored)
      | OtherValue \<Rightarrow> ([], Errored))"
| "pump decoder buffer (chunk # chunks) e =
     (case transform decoder buffer chunk of
        (decoder', buffer', out) \<Rightarrow>
          (case pump decoder' buffer' chunks e of (rest, s) \<Rightarrow> (out @ rest, s)))"

definition cargeek_error_response :: "thrown \<Rightarrow> response" where
  "cargeek_error_response e =
     \<lparr> resp_status = 200,
       resp_headers =
         [(''Content-Type'', ''text/event-stream''),
          (''Cache-Control'', ''no-cache''),
          (''Connection'', ''keep-alive''),
          (''x-vercel-ai-ui-message-stream'', ''v1'')],
       resp_body = Text
         (''data: '' @
          ''{'' @ json_string ''type'' @ '':'' @ json_string ''error'' @ '','' @
                 json_string ''errorText'' @ '':'' @ json_string (error_message e) @ ''}'' @
          [newline, newline] @ ''data: [DONE]'' @ [newline, newline]) \<rparr>"

text \<open>
  \<^verbatim>\<open>POST\<close> of the chat-stream route. \<open>request_json\<close> is the outcome of
  \<^verbatim>\<open>await request.json()\<close>, \<open>fetch\<close> the outcome of the upstream call for a given body,
  \<open>now_ms\<close> is \<^verbatim>\<open>Date.now()\<close>. A \<^verbatim>\<open>Response\<close> built without a status has status 200.
\<close>

definition POST_cargeek_stream ::
  "(backend_body \<Rightarrow> thrown + upstream_response) \<Rightarrow> nat \<Rightarrow> thrown + request_body \<Rightarrow> response" where
  "POST_cargeek_stream fetch now_ms request_json =
     (case request_json of
        Inl e \<Rightarrow> cargeek_error_response e
      | Inr body \<Rightarrow>
          (case fetch (cargeek_backendBody now_ms body) of
             Inl e \<Rightarrow> cargeek_error_response e
           | Inr backendResponse \<Rightarrow>
               if \<not> ok backendResponse then
                 cargeek_error_response
                   (ErrorObject (''Backend returned '' @ show_nat (up_status backendResponse)))
               else
                 (case pump new_TextDecoder [] (up_chunks backendResponse)
                         (up_end backendResponse) of
                    (out, s) \<Rightarrow>
                      \<lparr> resp_status = 200,
                        resp_headers =
                          [(''Content-Type'', ''text/event-stream''),
                           (''Cache-Control'', ''no-cache''),
                           (''Connection'', ''keep-alive''),
                           (''x-vercel-ai-ui-message-stream'', ''v1'')],
                        resp_body = Stream out s \<rparr>)))"

subsection \<open>The vehicle-profile endpoint (api/vehicle-stream/route.ts)\<close>

definition vehicle_message :: "request_body \<Rightarrow> string" where
  "vehicle_message body =
     (case req_message body of
        MessageObject m \<Rightarrow>
          (if str_or (msg_content m) [] \<noteq> [] then str_or (msg_content m) []
           else (case msg_parts m of Some parts \<Rightarrow> text_of_parts parts | None \<Rightarrow> []))
      | MessageString s \<Rightarrow> s
      | MessageAbsent \<Rightarrow> [])"

definition vehicleQuery :: "string \<Rightarrow> string" where
  "vehicleQuery message =
     ''COMPREHENSIVE VEHICLE PROFILE REQUEST for '' @ message @ '':'' @ [newline] @
     [newline] @
     ''I need ALL agents to provide data:'' @ [newline] @
     ''1. LISTINGS: Search current marketplace listings, pricing, and availability'' @ [newline] @
     ''2. RESEARCH: Get technical specifications, features, and performance data'' @ [newline] @
     ''3. SENTIMENT: Analyze consumer sentiment from owner reviews and forums'' @ [newline] @
     ''4. MEDIA: Find photos, videos, and visual content'' @ [newline] @
     ''5. ANALYTICS: Provide market trends and pricing analytics'' @ [newline] @
     [newline] @
     ''This is a vehicle profile request requiring comprehensive multi-agent analysis.'' @ [newline] @
     ''Please spawn all relevant agents for complete vehicle intelligence.'' @ [newline] @
     [newline] @
     ''Target vehicle: '' @ message @ [newline] @
     ''Request type: Full vehicle profile analysis'' @ [newline] @
     ''UI format: Structured data for generative UI components''"

text \<open>
  Object spread \<^verbatim>\<open>{ ...base, ...extra }\<close>: a key of \<open>extra\<close> replaces the value of the
  same key in place, a new key is appended.
\<close>

fun obj_set :: "string \<Rightarrow> jsval \<Rightarrow> (string \<times> jsval) list \<Rightarrow> (string \<times> jsval) list" where
  "obj_set k v [] = [(k, v)]"
| "obj_set k v ((k', v') # kvs) =
     (if k = k' then (k, v) # kvs else (k', v') # obj_set k v kvs)"

definition obj_spread :: "(string \<times> jsval) list \<Rightarrow> (string \<times> jsval) list \<Rightarrow> (string \<times> jsval) list" where
  "obj_spread base extra = fold (\<lambda>kv acc. obj_set (fst kv) (snd kv) acc) extra base"

definition vehicle_sessionId :: "nat \<Rightarrow> request_body \<Rightarrow> string" where
  "vehicle_sessionId now_ms body =
     str_or (req_id body) (str_or (req_session_id body) (''vehicle-'' @ show_nat now_ms))"

definition vehicle_backendBody :: "nat \<Rightarrow> request_body \<Rightarrow> backend_body" where
  "vehicle_backendBody now_ms body =
     \<lparr> bb_message = vehicleQuery (vehicle_message body),
       bb_session_id = vehicle_sessionId now_ms body,
       bb_user_context =
         obj_spread
           [(''request_type'', JStr ''vehicle_profile''),
            (''vehicle_query'', JStr (vehicle_message body)),
            (''ui_format'', JStr ''generative'')]
           (case req_user_context body of Some c \<Rightarrow> c | None \<Rightarrow> []) \<rparr>"

definition vehicle_error_response :: "thrown \<Rightarrow> response" where
  "vehicle_error_response e =
     \<lparr> resp_status = 500,
       resp_headers = [(''Content-Type'', ''application/json'')],
       resp_body = Text
         (''{'' @ json_string ''error'' @ '':'' @ json_string ''Vehicle stream failed'' @ '','' @
                 json_string ''details'' @ '':'' @ json_string (error_message e) @ ''}'') \<rparr>"

text \<open>
  The read loop of the vehicle-profile route: every upstream chunk is decoded with
  \<^verbatim>\<open>decoder.decode(value, { stream: true })\<close> and the text is encoded and enqueued.
\<close>

fun forward_chunks :: "TextDecoder \<Rightarrow> byte list list \<Rightarrow> byte list list" where
  "forward_chunks decoder [] = []"
| "forward_chunks decoder (v # vs) =
     (case TextDecoder_decode decoder v of
        (decoder', chunk) \<Rightarrow> TextEncoder_encode chunk # forward_chunks decoder' vs)"

text \<open>
  \<^verbatim>\<open>POST\<close> of the vehicle-profile route. On success the chunks of the read loop are the
  body; a read error puts the stream into its error state.
\<close>

definition POST_vehicle_stream ::
  "(backend_body \<Rightarrow> thrown + upstream_response) \<Rightarrow> nat \<Rightarrow> thrown + request_body \<Rightarrow> response" where
  "POST_vehicle_stream fetch now_ms request_json =
     (case request_json of
        Inl e \<Rightarrow> vehicle_error_response e
      | Inr body \<Rightarrow>
          (case fetch (vehicle_backendBody now_ms body) of
             Inl e \<Rightarrow> vehicle_error_response e
           | Inr backendResponse \<Rightarrow>
               if \<not> ok backendResponse then
                 vehicle_error_response
                   (ErrorObject (''Backend returned '' @ show_nat (up_status backendResponse)))
               else
                 \<lparr> resp_status = 200,
                   resp_headers =
                     [(''Content-Type'', ''text/event-stream''),
                      (''Cache-Control'', ''no-cache, no-store, must-revalidate''),
                      (''Connection'', ''keep-alive''),
                      (''Access-Control-Allow-Origin'', ''*''),
                      (''Access-Control-Allow-Methods'', ''GET, POST, OPTIONS''),
                      (''Access-Control-Allow-Headers'', ''Content-Type, Authorization''),
                      (''X-Vehicle-Request'', ''true''),
                      (''X-Session-ID'', vehicle_sessionId now_ms body)],
                   resp_body =
                     Stream (forward_chunks new_TextDecoder (up_chunks backendResponse))
                       (case up_end backendResponse of
                          Done \<Rightarrow> Closed
                        | ReadFailed e \<Rightarrow> Errored) \<rparr>))"

section \<open>Events, kinds and runs used in the statements\<close>

text \<open>\<^verbatim>\<open>AgentType\<close> of lib/types/agent-data.ts, its wire name and its slot.\<close>

datatype AgentType = Research | Listings | Sentiment | Media

fun kind_name :: "AgentType \<Rightarrow> string" where
  "kind_name Research = ''research''"
| "kind_name Listings = ''listings''"
| "kind_name Sentiment = ''sentiment''"
| "kind_name Media = ''media''"

fun slot :: "AgentType \<Rightarrow> AgentResults \<Rightarrow> jsval option" where
  "slot Research r = research r"
| "slot Listings r = listings r"
| "slot Sentiment r = sentiment r"
| "slot Media r = media r"

text \<open>
  The wire events of the two interfaces \<^verbatim>\<open>AgentSpawnEvent\<close> and \<^verbatim>\<open>AgentCompleteEvent\<close>,
  as \<^verbatim>\<open>JSON.parse\<close> delivers them. \<open>JUndefined\<close> as \<open>result\<close> stands for an absent result.
\<close>

definition AgentSpawnEvent :: "string \<Rightarrow> string \<Rightarrow> string \<Rightarrow> jsval" where
  "AgentSpawnEvent agent priority agent_id =
     JObj [(''type'', JStr ''agent_spawn''),
           (''data'', JObj [(''agent'', JStr agent),
                           (''priority'', JStr priority),
                           (''agent_id'', JStr agent_id)])]"

definition AgentCompleteEvent :: "string \<Rightarrow> string \<Rightarrow> bool \<Rightarrow> jsval \<Rightarrow> jsval" where
  "AgentCompleteEvent agent_type agent_id success result =
     JObj [(''type'', JStr ''agent_complete''),
           (''data'', JObj [(''agent_type'', JStr agent_type),
                           (''agent_id'', JStr agent_id),
                           (''success'', JBool success),
                           (''result'', result)])]"

text \<open>
  What the dispatch makes of a decoded event. \<open>is_spawn\<close>: \<^verbatim>\<open>handleAgentSpawn\<close> is called
  and does not throw. \<open>is_completion\<close>: \<^verbatim>\<open>handleAgentComplete\<close> is called and passes its
  guard \<^verbatim>\<open>!success || !result\<close>. \<open>event_result\<close> is \<^verbatim>\<open>event.data.result\<close>.
\<close>

definition is_spawn :: "jsval \<Rightarrow> bool" where
  "is_spawn ev =
     (truthy ev \<and> field ev ''type'' = JStr ''agent_spawn'' \<and> \<not> nullish (field ev ''data''))"

definition event_result :: "jsval \<Rightarrow> jsval" where
  "event_result ev = field (field ev ''data'') ''result''"

definition is_completion :: "jsval \<Rightarrow> bool" where
  "is_completion ev =
     (truthy ev \<and> field ev ''type'' = JStr ''agent_complete''
      \<and> truthy (field (field ev ''data'') ''success'') \<and> truthy (event_result ev))"

text \<open>A run of decoded events, each with the time at which it is handled.\<close>

fun apply_events :: "(string \<times> jsval) list \<Rightarrow> AgentDataParser \<Rightarrow> AgentDataParser" where
  "apply_events [] st = st"
| "apply_events ((now, ev) # es) st = apply_events es (apply_event now ev st)"

text \<open>An \<^verbatim>\<open>agent_spawn\<close> event that names the kind \<open>k\<close>.\<close>

definition spawns_kind :: "string \<Rightarrow> jsval \<Rightarrow> bool" where
  "spawns_kind k ev = (is_spawn ev \<and> field (field ev ''data'') ''agent'' = JStr k)"

text \<open>
  The envelopes a dashboard receives in \<^verbatim>\<open>onData\<close>: a decoded stream event, or a state
  object. For a state object the component calls \<^verbatim>\<open>parseStateData\<close>, which neither reads
  nor writes the parser's own aggregate, so the parser is left as it is.
\<close>

datatype envelope = StreamEvent jsval | StateSnapshot CarGeekState

definition apply_envelope :: "string \<Rightarrow> envelope \<Rightarrow> AgentDataParser \<Rightarrow> AgentDataParser" where
  "apply_envelope now env st =
     (case env of StreamEvent ev \<Rightarrow> apply_event now ev st | StateSnapshot state \<Rightarrow> st)"

text \<open>The initial state followed by the state after each envelope.\<close>

fun trace :: "(string \<times> envelope) list \<Rightarrow> AgentDataParser \<Rightarrow> AgentDataParser list" where
  "trace [] st = [st]"
| "trace ((now, env) # es) st = st # trace es (apply_envelope now env st)"

text \<open>
  \<open>targets_active\<close>: an envelope that is a completion passing the guard names, as
  \<^verbatim>\<open>agent_type\<close>, an agent that is in \<^verbatim>\<open>active_agents\<close> at that moment.
  \<open>completions_target_active\<close>: this holds for every envelope of the run, in the state in
  which it is applied.
\<close>

definition targets_active :: "envelope \<Rightarrow> AgentDataParser \<Rightarrow> bool" where
  "targets_active env st =
     (case env of
        StreamEvent ev \<Rightarrow>
          (if is_completion ev
           then array_includes (active_agents (agentResults st))
                  (field (field ev ''data'') ''agent_type'')
           else True)
      | StateSnapshot state \<Rightarrow> True)"

fun completions_target_active :: "(string \<times> envelope) list \<Rightarrow> AgentDataParser \<Rightarrow> bool" where
  "completions_target_active [] st = True"
| "completions_target_active ((now, env) # es) st =
     (targets_active env st \<and> completions_target_active es (apply_envelope now env st))"

definition counters_ok :: "AgentDataParser \<Rightarrow> bool" where
  "counters_ok st = (completed_agents (agentResults st) \<le> total_agents (agentResults st))"

text \<open>
  \<open>balanced\<close>: every agent counted in \<^verbatim>\<open>total_agents\<close> is either active or completed, and
  no primitive value occurs twice in \<^verbatim>\<open>active_agents\<close>.
\<close>

definition balanced :: "AgentDataParser \<Rightarrow> bool" where
  "balanced st =
     (completed_agents (agentResults st) + length (active_agents (agentResults st))
        = total_agents (agentResults st)
      \<and> distinct (filter is_primitive (active_agents (agentResults st))))"

text \<open>
  What a state snapshot holds for an agent kind. \<open>kind_of\<close> reads a key of \<^verbatim>\<open>agent_data\<close>
  as one of the four kinds; \<open>shape\<close> is the shaping function of a kind; \<open>shaped_last\<close> is
  the shaped \<^verbatim>\<open>data\<close> of the last item of a non-empty item array, if the shaping does not
  throw; \<open>entries_of\<close> lists the entries of \<^verbatim>\<open>agent_data\<close>, a missing item array read as
  an empty one; \<open>snapshot_payload\<close> looks the kind up in them.
\<close>

definition kind_of :: "string \<Rightarrow> AgentType option" where
  "kind_of s =
     (if s = ''listings'' then Some Listings
      else if s = ''research'' then Some Research
      else if s = ''sentiment'' then Some Sentiment
      else if s = ''media'' then Some Media
      else None)"

fun shape :: "nat \<Rightarrow> AgentType \<Rightarrow> jsval \<Rightarrow> js_error + jsval" where
  "shape ms Listings = parseListingsData ms"
| "shape ms Research = parseResearchData ms"
| "shape ms Sentiment = parseSentimentData ms"
| "shape ms Media = parseMediaData ms"

definition shaped_last :: "nat \<Rightarrow> AgentType \<Rightarrow> jsval list \<Rightarrow> jsval option" where
  "shaped_last ms k items =
     (if items = [] then None
      else (case and_then (get_prop (last items) ''data'') (shape ms k) of
              Inl e \<Rightarrow> None
            | Inr p \<Rightarrow> Some p))"

definition items_of :: "jsval list option \<Rightarrow> jsval list" where
  "items_of dataItems = (case dataItems of None \<Rightarrow> [] | Some items \<Rightarrow> items)"

definition entries_of :: "CarGeekState \<Rightarrow> (string \<times> jsval list) list" where
  "entries_of state =
     (case st_agent_data state of
        None \<Rightarrow> []
      | Some entries \<Rightarrow> map (\<lambda>e. (fst e, items_of (snd e))) entries)"

definition snapshot_payload :: "nat \<Rightarrow> AgentType \<Rightarrow> CarGeekState \<Rightarrow> jsval option" where
  "snapshot_payload ms k state =
     (case map_of (entries_of state) (kind_name k) of
        None \<Rightarrow> None
      | Some items \<Rightarrow> shaped_last ms k items)"

text \<open>
  The number of populated slots, and the number of non-empty entries of \<^verbatim>\<open>agent_data\<close>
  under keys that are none of the four kinds.
\<close>

definition populated_slots :: "AgentResults \<Rightarrow> nat" where
  "populated_slots r =
     length (filter (\<lambda>k. slot k r \<noteq> None) [Research, Listings, Sentiment, Media])"

definition other_entries :: "(string \<times> jsval list) list \<Rightarrow> nat" where
  "other_entries entries =
     length (filter (\<lambda>e. kind_of (fst e) = None \<and> snd e \<noteq> []) entries)"

text \<open>Auxiliary: assignment to the slot of a kind, and whether an entry is counted.\<close>

fun set_slot :: "AgentType \<Rightarrow> jsval \<Rightarrow> AgentResults \<Rightarrow> AgentResults" where
  "set_slot Research p r = r\<lparr>research := Some p\<rparr>"
| "set_slot Listings p r = r\<lparr>listings := Some p\<rparr>"
| "set_slot Sentiment p r = r\<lparr>sentiment := Some p\<rparr>"
| "set_slot Media p r = r\<lparr>media := Some p\<rparr>"

definition entry_counts :: "nat \<Rightarrow> string \<times> jsval list \<Rightarrow> bool" where
  "entry_counts ms e =
     (snd e \<noteq> [] \<and>
      (case kind_of (fst e) of None \<Rightarrow> True | Some k \<Rightarrow> shaped_last ms k (snd e) \<noteq> None))"

text \<open>
  The output of the chat-stream transform in the words of the specification, on a whole
  text: of the lines that a newline completes, those that begin with \<^verbatim>\<open>data: \<close> are
  forwarded as \<^verbatim>\<open>data: \<close>, the body and two newlines, in order, and all others are
  dropped; the trailing piece without a newline is forwarded, followed by two newlines, if
  it begins with \<^verbatim>\<open>data: \<close>, and dropped otherwise. The text may be a list of bytes
  (the upstream as it is) or of code units (the upstream decoded).
\<close>

definition forwarded_lines :: "'a::len word list \<Rightarrow> 'a word list list" where
  "forwarded_lines whole =
     (let lines = split LF whole
      in map (\<lambda>line. literal ''data: '' @ drop 6 line @ [LF, LF])
           (filter (\<lambda>line. startsWith line (literal ''data: '')) (butlast lines))
         @ (if startsWith (last lines) (literal ''data: '')
            then [last lines @ [LF, LF]] else []))"

text \<open>
  \<open>decoded_text\<close>: the text that a new \<^verbatim>\<open>TextDecoder\<close> makes of a byte sequence decoded
  in one call with \<^verbatim>\<open>stream: true\<close>. \<open>ascii\<close>: a byte below \<^verbatim>\<open>0x80\<close>.
\<close>

definition decoded_text :: "byte list \<Rightarrow> code_unit list" where
  "decoded_text bytes = snd (TextDecoder_decode new_TextDecoder bytes)"

definition ascii :: "byte \<Rightarrow> bool" where
  "ascii b = (b \<le> 0x7F)"

section \<open>Example inputs\<close>

definition parser0 :: AgentDataParser where
  "parser0 = onUpdate ''vehicle-camry'' (new_AgentDataParser ''2025-01-01T00:00:00.000Z'')"

definition listings_payload :: "nat \<Rightarrow> jsval" where
  "listings_payload n =
     JObj [(''agent_type'', JStr ''listings''),
           (''agent_id'', JStr ''listings_1''),
           (''success'', JBool True),
           (''total_found'', JNum (of_nat n)),
           (''returned_count'', JNum (of_nat n)),
           (''listings'', JArr [])]"

definition parser_two_active :: AgentDataParser where
  "parser_two_active =
     apply_event ''2025-01-01T00:00:02.000Z'' (AgentSpawnEvent ''media'' ''background'' ''media_1'')
       (apply_event ''2025-01-01T00:00:01.000Z''
          (AgentSpawnEvent ''research'' ''background'' ''research_1'') parser0)"

definition parser_listings_active :: AgentDataParser where
  "parser_listings_active =
     apply_event ''2025-01-01T00:00:01.000Z''
       (AgentSpawnEvent ''listings'' ''foreground'' ''listings_1'') parser0"

definition parser_listings_done :: AgentDataParser where
  "parser_listings_done =
     apply_event ''2025-01-01T00:00:02.000Z''
       (AgentCompleteEvent ''listings'' ''listings_1'' True (listings_payload 5))
       parser_listings_active"

definition snapshot_with_listings :: CarGeekState where
  "snapshot_with_listings =
     \<lparr> st_agent_data =
         Some [(''listings'',
                Some [JObj [(''data'', JObj [(''agent_id'', JStr ''listings_7''),
                                             (''total_found'', JNum 9)])]])],
       st_agent_metadata = JObj [],
       st_active_agents = JArr [JStr ''media''],
       st_current_analysis = JUndefined,
       st_session_id = ''session-1'',
       st_user_context = JObj [],
       st_current_results = JObj [] \<rparr>"

text \<open>An object with \<^verbatim>\<open>current_results\<close> only: it passes the callers' guard.\<close>

definition snapshot_without_active_agents :: CarGeekState where
  "snapshot_without_active_agents =
     \<lparr> st_agent_data = None,
       st_agent_metadata = JUndefined,
       st_active_agents = JUndefined,
       st_current_analysis = JUndefined,
       st_session_id = ''session-1'',
       st_user_context = JUndefined,
       st_current_results = JObj [(''summary'', JStr ''done'')] \<rparr>"

definition spawn_twice :: "(string \<times> jsval) list" where
  "spawn_twice =
     [(''2025-01-01T00:00:01.000Z'', AgentSpawnEvent ''listings'' ''foreground'' ''listings_1''),
      (''2025-01-01T00:00:02.000Z'', AgentSpawnEvent ''listings'' ''background'' ''listings_2'')]"

definition run_spawn_complete_snapshot :: "(string \<times> envelope) list" where
  "run_spawn_complete_snapshot =
     [(''2025-01-01T00:00:01.000Z'',
       StreamEvent (AgentSpawnEvent ''listings'' ''foreground'' ''listings_1'')),
      (''2025-01-01T00:00:02.000Z'',
       StreamEvent (AgentCompleteEvent ''listings'' ''listings_1'' True (listings_payload 5))),
      (''2025-01-01T00:00:03.000Z'', StateSnapshot snapshot_with_listings)]"

definition run_unspawned_completion :: "(string \<times> envelope) list" where
  "run_unspawned_completion =
     [(''2025-01-01T00:00:01.000Z'',
       StreamEvent (AgentCompleteEvent ''listings'' ''listings_1'' True (listings_payload 5)))]"

definition sample_request :: request_body where
  "sample_request =
     \<lparr> req_id = Some ''chat-1'', req_session_id = None,
       req_message = MessageObject \<lparr> msg_content = None,
         msg_parts = Some [\<lparr> part_type = ''text'', part_text = Some ''Toyota Camry'' \<rparr>] \<rparr>,
       req_user_context = None \<rparr>"

definition upstream_503 :: upstream_response where
  "upstream_503 = \<lparr> up_status = 503, up_chunks = [], up_end = Done \<rparr>"

definition fetch_503 :: "backend_body \<Rightarrow> thrown + upstream_response" where
  "fetch_503 b = Inr upstream_503"

text \<open>
  An upstream text in three chunks, cut inside a line. It holds two \<^verbatim>\<open>data:\<close> lines, a
  blank separator, a comment, an \<^verbatim>\<open>event:\<close> field and an unfinished \<^verbatim>\<open>data:\<close> line.
\<close>

definition sample_chunks :: "byte list list" where
  \<open>sample_chunks =
     [literal ''data: {"type":"text-delta"}'' @ [LF] @ [LF] @ literal '': ping'' @ [LF]
        @ literal ''da'',
      literal ''ta: [DO'',
      literal ''NE]'' @ [LF] @ literal ''event: end'' @ [LF] @ literal ''data: tail'']\<close>

text \<open>
  Three upstreams that are not plain ASCII: a \<^verbatim>\<open>data:\<close> line whose body holds the byte
  \<^verbatim>\<open>0xFF\<close>, which no UTF-8 sequence contains; a \<^verbatim>\<open>data:\<close> line after a byte order mark;
  and an unfinished \<^verbatim>\<open>data:\<close> line that ends with the first byte of a two-byte sequence.
\<close>

definition chunks_invalid_byte :: "byte list list" where
  "chunks_invalid_byte = [literal ''data: '' @ [0xFF] @ [LF]]"

definition chunks_BOM :: "byte list list" where
  "chunks_BOM = [[0xEF, 0xBB, 0xBF] @ literal ''data: x'' @ [LF]]"

definition chunks_truncated :: "byte list list" where
  "chunks_truncated = [literal ''data: caf'', [0xC3]]"

text \<open>
  The values of \<^verbatim>\<open>JSON.parse\<close> on the bodies used in the examples below: a chat response
  and a spawn event. Every other text is answered with a SyntaxError; the examples use
  this only for a text that is not JSON.
\<close>

definition sample_JSON_parse :: json_parse where
  \<open>sample_JSON_parse body =
     (if body = ''{"type":"chat_response","data":{"response":"hello"}}''
      then Inr (JObj [(''type'', JStr ''chat_response''),
                      (''data'', JObj [(''response'', JStr ''hello'')])])
      else if body = ''{"type":"agent_spawn","data":{"agent":"listings","priority":"foreground","agent_id":"listings_1"}}''
      then Inr (AgentSpawnEvent ''listings'' ''foreground'' ''listings_1'')
      else Inl SyntaxError)\<close>

lemmas example_defs =
  parser0_def parser_listings_active_def parser_listings_done_def
  listings_payload_def AgentSpawnEvent_def AgentCompleteEvent_def
  new_AgentDataParser_def empty_results_def onUpdate_def
  snapshot_with_listings_def

lemmas handler_defs =
  apply_event_def dispatch_event_def handleAgentSpawn_def handleAgentComplete_def
  store_result_def isListingsResult_def isResearchResult_def isSentimentResult_def
  isMediaResult_def has_agent_type_def notifyListeners_def getResults_def
  array_includes_def strict_equals_def Let_def

section \<open>Lemmas about the handlers\<close>

lemma get_prop_field: "get_prop v k = (if nullish v then Inl TypeError else Inr (field v k))"
  by (cases v) (simp_all add: nullish_def field_def)

lemma field_nullish [simp]: "nullish v \<Longrightarrow> field v k = JUndefined"
  by (auto simp: nullish_def field_def)

lemma field_JObj [simp]:
  "field (JObj kvs) k = (case map_of kvs k of None \<Rightarrow> JUndefined | Some v \<Rightarrow> v)"
  by (simp add: field_def)

lemma nullish_simps [simp]:
  "nullish JUndefined" "nullish JNull" "\<not> nullish (JBool b)" "\<not> nullish (JNum n)"
  "\<not> nullish (JStr s)" "\<not> nullish (JArr xs)" "\<not> nullish (JObj kvs)"
  by (simp_all add: nullish_def)

lemma truthy_not_nullish: "truthy v \<Longrightarrow> \<not> nullish v"
  by (auto simp: nullish_def)

lemma notifyListeners_simps [simp]:
  "agentResults (notifyListeners st) = agentResults st"
  "listeners (notifyListeners st) = listeners st"
  "delivered (notifyListeners st) = delivered st @ map (\<lambda>k. (k, agentResults st)) (listeners st)"
  by (simp_all add: notifyListeners_def getResults_def)

lemma apply_event_spawn:
  "is_spawn ev \<Longrightarrow>
   apply_event now ev st =
     notifyListeners (st\<lparr>agentResults :=
       (if array_includes (active_agents (agentResults st)) (field (field ev ''data'') ''agent'')
        then agentResults st
        else (agentResults st)
               \<lparr>active_agents :=
                  active_agents (agentResults st) @ [field (field ev ''data'') ''agent''],
                total_agents := total_agents (agentResults st) + 1\<rparr>)\<lparr>last_updated := now\<rparr>\<rparr>)"
  by (simp add: is_spawn_def apply_event_def dispatch_event_def handleAgentSpawn_def
      get_prop_field truthy_not_nullish Let_def)

lemma apply_event_completion:
  "is_completion ev \<Longrightarrow>
   apply_event now ev st =
     notifyListeners (st\<lparr>agentResults :=
       (store_result (event_result ev)
          ((agentResults st)\<lparr>active_agents :=
              filter (\<lambda>agent. \<not> strict_equals agent (field (field ev ''data'') ''agent_type''))
                (active_agents (agentResults st)),
            completed_agents := completed_agents (agentResults st) + 1\<rparr>))\<lparr>last_updated := now\<rparr>\<rparr>)"
  by (auto simp add: is_completion_def event_result_def apply_event_def dispatch_event_def
      handleAgentComplete_def get_prop_field truthy_not_nullish Let_def)

lemma apply_event_other:
  "\<not> is_spawn ev \<Longrightarrow> \<not> is_completion ev \<Longrightarrow> apply_event now ev st = st"
  by (auto simp add: is_spawn_def is_completion_def event_result_def apply_event_def
      dispatch_event_def handleAgentSpawn_def handleAgentComplete_def get_prop_field
      truthy_not_nullish Let_def split: sum.splits)

lemma not_spawn_and_completion: "is_spawn ev \<Longrightarrow> is_completion ev \<Longrightarrow> False"
  by (auto simp add: is_spawn_def is_completion_def)

lemma store_result_slot:
  "\<not> nullish res \<Longrightarrow>
   slot k (store_result res r) =
     (if field res ''agent_type'' = JStr (kind_name k) then Some res else slot k r)"
  by (cases k)
     (simp_all add: store_result_def isListingsResult_def isResearchResult_def
        isSentimentResult_def isMediaResult_def has_agent_type_def get_prop_field
        split: bool.splits sum.splits)

lemma store_result_meta [simp]:
  "total_agents (store_result res r) = total_agents r"
  "completed_agents (store_result res r) = completed_agents r"
  "active_agents (store_result res r) = active_agents r"
  "last_updated (store_result res r) = last_updated r"
  by (simp_all add: store_result_def isListingsResult_def isResearchResult_def
        isSentimentResult_def isMediaResult_def has_agent_type_def
        split: bool.splits sum.splits)

lemma slot_meta_update [simp]:
  "slot k (r\<lparr>last_updated := t\<rparr>) = slot k r"
  "slot k (r\<lparr>active_agents := a\<rparr>) = slot k r"
  "slot k (r\<lparr>total_agents := n\<rparr>) = slot k r"
  "slot k (r\<lparr>completed_agents := n\<rparr>) = slot k r"
  by (cases k; simp)+

lemma is_spawn_AgentSpawnEvent [simp]: "is_spawn (AgentSpawnEvent a p i)"
  by (simp add: is_spawn_def AgentSpawnEvent_def)

lemma is_completion_AgentCompleteEvent [simp]:
  "is_completion (AgentCompleteEvent a i s res) = (s \<and> truthy res)"
  by (simp add: is_completion_def event_result_def AgentCompleteEvent_def)

lemma not_is_spawn_AgentCompleteEvent [simp]: "\<not> is_spawn (AgentCompleteEvent a i s res)"
  by (simp add: is_spawn_def AgentCompleteEvent_def)

lemma not_is_completion_AgentSpawnEvent [simp]: "\<not> is_completion (AgentSpawnEvent a p i)"
  by (simp add: is_completion_def AgentSpawnEvent_def)

lemma event_fields [simp]:
  "field (field (AgentSpawnEvent a p i) ''data'') ''agent'' = JStr a"
  "field (field (AgentCompleteEvent a i s res) ''data'') ''agent_type'' = JStr a"
  "event_result (AgentCompleteEvent a i s res) = res"
  by (simp_all add: AgentSpawnEvent_def AgentCompleteEvent_def event_result_def)

section \<open>Failed completions\<close>

text \<open>
  C1. The claim: an \<^verbatim>\<open>agent_complete\<close> with \<^verbatim>\<open>success=false\<close> removes the named agent from
  \<^verbatim>\<open>active_agents\<close> and leaves \<^verbatim>\<open>completed_agents\<close> and the four payload slots as they
  were. The code returns from \<^verbatim>\<open>handleAgentComplete\<close> before the line that filters
  \<^verbatim>\<open>active_agents\<close>: after \<^verbatim>\<open>research\<close> and \<^verbatim>\<open>media\<close> have been spawned, a failed
  completion of \<^verbatim>\<open>research\<close> changes nothing at all, so \<^verbatim>\<open>research\<close> is still listed as
  active (the counter and the slots are indeed untouched).
\<close>

theorem failed_completion_keeps_agent_active:
  "apply_event ''2025-01-01T00:00:03.000Z''
     (AgentCompleteEvent ''research'' ''research_1'' False JUndefined) parser_two_active
   = parser_two_active
   \<and> active_agents (agentResults parser_two_active) = [JStr ''research'', JStr ''media'']
   \<and> completed_agents (agentResults parser_two_active) = 0
   \<and> research (agentResults parser_two_active) = None"
  by (simp add: parser_two_active_def example_defs handler_defs)

section \<open>Payload slots: the last write wins\<close>

text \<open>
  C2, as stated, fails: with the \<^verbatim>\<open>listings\<close> slot already holding a payload, a second
  successful completion for \<^verbatim>\<open>listings\<close> replaces it.
\<close>

theorem second_completion_replaces_payload:
  "listings (agentResults parser_listings_done) = Some (listings_payload 5)
   \<and> listings (agentResults
        (apply_event ''2025-01-01T00:00:03.000Z''
           (AgentCompleteEvent ''listings'' ''listings_2'' True (listings_payload 9))
           parser_listings_done)) = Some (listings_payload 9)
   \<and> listings_payload 9 \<noteq> listings_payload 5"
  by (simp add: example_defs handler_defs)

text \<open>
  C2, amended. For each of the four slots of the parser's aggregate and every envelope:
  a stream event assigns the slot exactly when it is a completion that passes the guard
  (truthy \<^verbatim>\<open>success\<close> and \<^verbatim>\<open>result\<close>) and whose result carries the \<^verbatim>\<open>agent_type\<close> of that
  slot, and then the slot holds the new result whether or not it was populated before;
  every other stream event (a spawn, a failed completion, a completion for another kind,
  any other type) and every state snapshot leaves the slot as it was.
\<close>

theorem slot_last_write_wins:
  "slot k (agentResults (apply_envelope now env st)) =
     (case env of
        StreamEvent ev \<Rightarrow>
          if is_completion ev \<and> field (event_result ev) ''agent_type'' = JStr (kind_name k)
          then Some (event_result ev)
          else slot k (agentResults st)
      | StateSnapshot state \<Rightarrow> slot k (agentResults st))"
proof (cases env)
  case (StateSnapshot state)
  then show ?thesis by (simp add: apply_envelope_def)
next
  case (StreamEvent ev)
  show ?thesis
  proof (cases "is_completion ev")
    case True
    then have "\<not> nullish (event_result ev)"
      by (simp add: is_completion_def truthy_not_nullish)
    with True StreamEvent show ?thesis
      by (simp add: apply_envelope_def apply_event_completion store_result_slot)
  next
    case no_completion: False
    show ?thesis
    proof (cases "is_spawn ev")
      case True
      then show ?thesis using no_completion StreamEvent
        by (simp add: apply_envelope_def apply_event_spawn)
    next
      case False
      with no_completion StreamEvent show ?thesis
        by (simp add: apply_envelope_def apply_event_other)
    qed
  qed
qed

theorem slot_last_write_wins_witness:
  "slot Listings (agentResults
     (apply_envelope ''2025-01-01T00:00:03.000Z''
        (StreamEvent (AgentCompleteEvent ''listings'' ''listings_2'' True (listings_payload 9)))
        parser_listings_done)) = Some (listings_payload 9)
   \<and> slot Research (agentResults
     (apply_envelope ''2025-01-01T00:00:03.000Z''
        (StreamEvent (AgentCompleteEvent ''listings'' ''listings_2'' True (listings_payload 9)))
        parser_listings_done)) = slot Research (agentResults parser_listings_done)
   \<and> slot Listings (agentResults
     (apply_envelope ''2025-01-01T00:00:03.000Z'' (StateSnapshot snapshot_with_listings)
        parser_listings_done)) = slot Listings (agentResults parser_listings_done)"
  using slot_last_write_wins [of Listings "''2025-01-01T00:00:03.000Z''"
          "StreamEvent (AgentCompleteEvent ''listings'' ''listings_2'' True (listings_payload 9))"
          parser_listings_done]
        slot_last_write_wins [of Research "''2025-01-01T00:00:03.000Z''"
          "StreamEvent (AgentCompleteEvent ''listings'' ''listings_2'' True (listings_payload 9))"
          parser_listings_done]
        slot_last_write_wins [of Listings "''2025-01-01T00:00:03.000Z''"
          "StateSnapshot snapshot_with_listings" parser_listings_done]
  by (simp add: listings_payload_def)

section \<open>Notifications\<close>

text \<open>
  C3, as stated, fails: a spawn of a kind that is already active changes neither
  \<^verbatim>\<open>active_agents\<close> nor \<^verbatim>\<open>total_agents\<close>, yet it rewrites \<^verbatim>\<open>last_updated\<close> and calls the
  registered listener once more.
\<close>

theorem duplicate_spawn_notifies:
  "active_agents (agentResults
     (apply_event ''2025-01-01T00:00:05.000Z''
        (AgentSpawnEvent ''listings'' ''foreground'' ''listings_1'') parser_listings_active))
     = active_agents (agentResults parser_listings_active)
   \<and> length (delivered
       (apply_event ''2025-01-01T00:00:05.000Z''
          (AgentSpawnEvent ''listings'' ''foreground'' ''listings_1'') parser_listings_active))
     = length (delivered parser_listings_active) + 1
   \<and> last_updated (agentResults
       (apply_event ''2025-01-01T00:00:05.000Z''
          (AgentSpawnEvent ''listings'' ''foreground'' ''listings_1'') parser_listings_active))
     \<noteq> last_updated (agentResults parser_listings_active)"
  by (simp add: example_defs handler_defs)

text \<open>
  C3, amended. A decoded event is handled when it is a spawn or a completion that passes
  the guard. Every handled event (a repeated spawn and a completion for a populated slot
  included) sets \<^verbatim>\<open>last_updated\<close> to the current time and calls each registered listener
  exactly once, with the new results. Every other input, among them the \<^verbatim>\<open>null\<close> envelope
  and a failed completion, leaves the parser as it was: no call, \<^verbatim>\<open>last_updated\<close>
  unchanged.
\<close>

theorem notification_per_handled_event:
  "(if is_spawn ev \<or> is_completion ev
    then delivered (apply_event now ev st) =
           delivered st @ map (\<lambda>k. (k, agentResults (apply_event now ev st))) (listeners st)
         \<and> last_updated (agentResults (apply_event now ev st)) = now
    else apply_event now ev st = st)
   \<and> \<not> is_spawn JNull \<and> \<not> is_completion JNull
   \<and> \<not> is_spawn (AgentCompleteEvent a i False res)
   \<and> \<not> is_completion (AgentCompleteEvent a i False res)"
proof -
  have "is_spawn ev \<and> is_completion ev \<Longrightarrow> False"
    by (auto dest: not_spawn_and_completion)
  then show ?thesis
    by (auto simp add: apply_event_spawn apply_event_completion apply_event_other)
       (simp_all add: is_spawn_def is_completion_def)
qed

theorem notification_per_handled_event_witness:
  "delivered (apply_event ''2025-01-01T00:00:05.000Z''
      (AgentSpawnEvent ''listings'' ''foreground'' ''listings_1'') parser_listings_active)
   = delivered parser_listings_active @
       [(''vehicle-camry'', agentResults (apply_event ''2025-01-01T00:00:05.000Z''
          (AgentSpawnEvent ''listings'' ''foreground'' ''listings_1'') parser_listings_active))]
   \<and> apply_event ''2025-01-01T00:00:05.000Z'' JNull parser_listings_active
       = parser_listings_active"
  using notification_per_handled_event [of
          "AgentSpawnEvent ''listings'' ''foreground'' ''listings_1''"
          "''2025-01-01T00:00:05.000Z''" parser_listings_active]
        notification_per_handled_event [of JNull
          "''2025-01-01T00:00:05.000Z''" parser_listings_active]
  by (simp add: example_defs handler_defs)

section \<open>Repeated spawns\<close>

lemma array_includes_iff: "array_includes xs v = (is_primitive v \<and> v \<in> set xs)"
  by (induction xs) (auto simp: array_includes_def strict_equals_def)

lemma array_includes_JStr [simp]: "array_includes xs (JStr k) = (JStr k \<in> set xs)"
  by (simp add: array_includes_iff)

lemma spawn_new:
  "spawns_kind k ev \<Longrightarrow> JStr k \<notin> set (active_agents (agentResults st)) \<Longrightarrow>
   active_agents (agentResults (apply_event now ev st)) = active_agents (agentResults st) @ [JStr k]
   \<and> total_agents (agentResults (apply_event now ev st)) = total_agents (agentResults st) + 1"
  by (simp add: spawns_kind_def apply_event_spawn)

lemma spawn_repeat:
  "spawns_kind k ev \<Longrightarrow> JStr k \<in> set (active_agents (agentResults st)) \<Longrightarrow>
   active_agents (agentResults (apply_event now ev st)) = active_agents (agentResults st)
   \<and> total_agents (agentResults (apply_event now ev st)) = total_agents (agentResults st)"
  by (simp add: spawns_kind_def apply_event_spawn)

lemma spawns_repeat:
  "list_all (\<lambda>e. spawns_kind k (snd e)) es \<Longrightarrow>
   JStr k \<in> set (active_agents (agentResults st)) \<Longrightarrow>
   active_agents (agentResults (apply_events es st)) = active_agents (agentResults st)
   \<and> total_agents (agentResults (apply_events es st)) = total_agents (agentResults st)"
proof (induction es arbitrary: st)
  case Nil
  then show ?case by simp
next
  case (Cons e es)
  obtain now ev where e: "e = (now, ev)" by (cases e)
  from Cons.prems e have sp: "spawns_kind k ev"
    and rest: "list_all (\<lambda>e. spawns_kind k (snd e)) es"
    by simp_all
  from spawn_repeat [OF sp Cons.prems(2), of now]
  have same:
    "active_agents (agentResults (apply_event now ev st)) = active_agents (agentResults st)"
    "total_agents (agentResults (apply_event now ev st)) = total_agents (agentResults st)"
    by simp_all
  with Cons.prems(2) have "JStr k \<in> set (active_agents (agentResults (apply_event now ev st)))"
    by simp
  from Cons.IH [OF rest this] same e show ?case by simp
qed

text \<open>
  C5, as stated, fails: applied to an aggregate in which the kind is already active, a
  sequence of spawns of that kind does not increment \<^verbatim>\<open>total_agents\<close> at all.
\<close>

theorem repeated_spawn_on_active_kind_keeps_total:
  "spawn_twice \<noteq> []
   \<and> list_all (\<lambda>e. spawns_kind ''listings'' (snd e)) spawn_twice
   \<and> total_agents (agentResults parser_listings_active) = 1
   \<and> total_agents (agentResults (apply_events spawn_twice parser_listings_active)) = 1
   \<and> total_agents (agentResults (apply_events spawn_twice parser_listings_active))
       \<noteq> total_agents (agentResults parser_listings_active) + 1"
  by (simp add: spawn_twice_def spawns_kind_def is_spawn_def example_defs handler_defs)

text \<open>
  C5, amended. For every sequence of \<^verbatim>\<open>agent_spawn\<close> events that all name the kind \<open>k\<close>,
  applied to any parser state:
  \<^item> if the sequence is not empty and \<open>k\<close> is not in \<^verbatim>\<open>active_agents\<close> before it, then
    afterwards \<open>k\<close> has been appended once, so it occurs exactly once in
    \<^verbatim>\<open>active_agents\<close>, and \<^verbatim>\<open>total_agents\<close> is its value before the sequence plus one;
  \<^item> otherwise (\<open>k\<close> is already active, or the sequence is empty) \<^verbatim>\<open>active_agents\<close> and
    \<^verbatim>\<open>total_agents\<close> are as before the sequence.
  In both cases a repeated spawn neither adds the kind nor increments the counter again.
\<close>

theorem spawn_idempotent:
  assumes "list_all (\<lambda>e. spawns_kind k (snd e)) es"
  shows "if es \<noteq> [] \<and> JStr k \<notin> set (active_agents (agentResults st))
         then active_agents (agentResults (apply_events es st))
                = active_agents (agentResults st) @ [JStr k]
              \<and> count_list (active_agents (agentResults (apply_events es st))) (JStr k) = 1
              \<and> total_agents (agentResults (apply_events es st))
                = total_agents (agentResults st) + 1
         else active_agents (agentResults (apply_events es st))
                = active_agents (agentResults st)
              \<and> total_agents (agentResults (apply_events es st))
                = total_agents (agentResults st)"
proof (cases "es \<noteq> [] \<and> JStr k \<notin> set (active_agents (agentResults st))")
  case True
  then obtain now ev es' where es: "es = (now, ev) # es'"
    by (cases es) auto
  with assms have sp: "spawns_kind k ev"
    and rest: "list_all (\<lambda>e. spawns_kind k (snd e)) es'"
    by simp_all
  from True have fresh: "JStr k \<notin> set (active_agents (agentResults st))" by simp
  let ?st1 = "apply_event now ev st"
  from spawn_new [OF sp fresh, of now]
  have first: "active_agents (agentResults ?st1) = active_agents (agentResults st) @ [JStr k]"
    "total_agents (agentResults ?st1) = total_agents (agentResults st) + 1"
    by simp_all
  then have "JStr k \<in> set (active_agents (agentResults ?st1))" by simp
  from spawns_repeat [OF rest this]
  have "active_agents (agentResults (apply_events es st))
          = active_agents (agentResults st) @ [JStr k]"
    "total_agents (agentResults (apply_events es st)) = total_agents (agentResults st) + 1"
    using first es by simp_all
  moreover from fresh have "count_list (active_agents (agentResults st)) (JStr k) = 0"
    by (simp add: count_list_0_iff)
  ultimately show ?thesis using True by simp
next
  case False
  show ?thesis
  proof (cases "es = []")
    case True
    then show ?thesis by simp
  next
    case nonempty: False
    with False have "JStr k \<in> set (active_agents (agentResults st))" by simp
    from spawns_repeat [OF assms this] False show ?thesis by simp
  qed
qed

theorem spawn_idempotent_witness:
  "list_all (\<lambda>e. spawns_kind ''listings'' (snd e)) spawn_twice
   \<and> spawn_twice \<noteq> []
   \<and> JStr ''listings'' \<notin> set (active_agents (agentResults parser0))
   \<and> count_list (active_agents (agentResults (apply_events spawn_twice parser0)))
       (JStr ''listings'') = 1
   \<and> total_agents (agentResults (apply_events spawn_twice parser0)) = 1
   \<and> JStr ''listings'' \<in> set (active_agents (agentResults parser_listings_active))
   \<and> active_agents (agentResults (apply_events spawn_twice parser_listings_active))
       = active_agents (agentResults parser_listings_active)
   \<and> total_agents (agentResults (apply_events spawn_twice parser_listings_active))
       = total_agents (agentResults parser_listings_active)"
proof -
  have h: "list_all (\<lambda>e. spawns_kind ''listings'' (snd e)) spawn_twice"
    by (simp add: spawn_twice_def spawns_kind_def)
  have h1: "spawn_twice \<noteq> []"
    by (simp add: spawn_twice_def)
  have h2: "JStr ''listings'' \<notin> set (active_agents (agentResults parser0))"
    "total_agents (agentResults parser0) = 0"
    by (simp_all add: example_defs)
  have h3: "JStr ''listings'' \<in> set (active_agents (agentResults parser_listings_active))"
    by (simp add: example_defs handler_defs)
  from spawn_idempotent [OF h, of parser0] spawn_idempotent [OF h, of parser_listings_active]
    h h1 h2 h3
  show ?thesis by simp
qed

section \<open>The counters\<close>

lemma length_filter_remove1:
  "distinct (filter P xs) \<Longrightarrow> P t \<Longrightarrow> t \<in> set xs \<Longrightarrow>
   Suc (length (filter (\<lambda>x. x \<noteq> t) xs)) = length xs"
proof (induction xs)
  case Nil
  then show ?case by simp
next
  case (Cons x xs)
  show ?case
  proof (cases "x = t")
    case True
    with Cons.prems have "t \<notin> set xs" by auto
    then have "filter (\<lambda>x. x \<noteq> t) xs = xs" by (induction xs) auto
    with True show ?thesis by simp
  next
    case False
    with Cons.prems have "distinct (filter P xs)" "t \<in> set xs" by (auto split: if_splits)
    with Cons.IH Cons.prems(2) False show ?thesis by simp
  qed
qed

lemma balanced_spawn:
  assumes "balanced st" and "is_spawn ev"
  shows "balanced (apply_event now ev st)"
  using assms
  by (auto simp add: balanced_def apply_event_spawn array_includes_iff)

lemma balanced_completion:
  assumes "balanced st" and "is_completion ev"
    and "array_includes (active_agents (agentResults st)) (field (field ev ''data'') ''agent_type'')"
  shows "balanced (apply_event now ev st)"
proof -
  let ?t = "field (field ev ''data'') ''agent_type''"
  let ?xs = "active_agents (agentResults st)"
  from assms(3) have t: "is_primitive ?t" "?t \<in> set ?xs" by (simp_all add: array_includes_iff)
  then have flt: "filter (\<lambda>agent. \<not> strict_equals agent ?t) ?xs = filter (\<lambda>x. x \<noteq> ?t) ?xs"
    by (simp add: strict_equals_def)
  from assms(1) have d: "distinct (filter is_primitive ?xs)" by (simp add: balanced_def)
  from length_filter_remove1 [OF d t]
  have len: "Suc (length (filter (\<lambda>x. x \<noteq> ?t) ?xs)) = length ?xs" .
  have "filter is_primitive (filter (\<lambda>x. x \<noteq> ?t) ?xs)
          = filter (\<lambda>x. x \<noteq> ?t) (filter is_primitive ?xs)"
    by (simp add: conj_commute)
  with d have "distinct (filter is_primitive (filter (\<lambda>x. x \<noteq> ?t) ?xs))"
    by (simp only: distinct_filter)
  with assms(1) len flt show ?thesis
    by (simp add: balanced_def apply_event_completion [OF assms(2)])
qed

lemma balanced_envelope:
  "balanced st \<Longrightarrow> targets_active env st \<Longrightarrow> balanced (apply_envelope now env st)"
proof (cases env)
  case (StreamEvent ev)
  assume b: "balanced st" and t: "targets_active env st"
  show ?thesis
  proof (cases "is_completion ev")
    case True
    with b t StreamEvent show ?thesis
      by (simp add: apply_envelope_def targets_active_def balanced_completion)
  next
    case False
    then show ?thesis using b StreamEvent
      by (cases "is_spawn ev") (simp_all add: apply_envelope_def balanced_spawn apply_event_other)
  qed
next
  case (StateSnapshot state)
  assume "balanced st"
  with StateSnapshot show ?thesis by (simp add: apply_envelope_def)
qed

lemma balanced_trace:
  "balanced st \<Longrightarrow> completions_target_active es st \<Longrightarrow> list_all balanced (trace es st)"
proof (induction es arbitrary: st)
  case Nil
  then show ?case by simp
next
  case (Cons e es)
  obtain now env where e: "e = (now, env)" by (cases e)
  with Cons.prems have "targets_active env st"
    "completions_target_active es (apply_envelope now env st)" by simp_all
  with Cons.prems(1) Cons.IH e show ?case by (simp add: balanced_envelope)
qed

lemma balanced_counters_ok: "balanced st \<Longrightarrow> counters_ok st"
  by (simp add: balanced_def counters_ok_def)

lemma parseStateData_total:
  "parseStateData now ms state = Inr r \<Longrightarrow>
   total_agents r = completed_agents r + length (active_agents r)"
  by (auto simp add: parseStateData_def Let_def split: sum.splits)

text \<open>
  C6, as stated, fails: \<^verbatim>\<open>handleAgentComplete\<close> increments \<^verbatim>\<open>completed_agents\<close> for every
  completion that passes its guard, whether or not the agent was ever spawned. From the
  initial parser one such completion gives \<^verbatim>\<open>completed_agents = 1\<close> with
  \<^verbatim>\<open>total_agents = 0\<close>.
\<close>

theorem unspawned_completion_breaks_counters:
  "completed_agents (agentResults parser0) = 0 \<and> total_agents (agentResults parser0) = 0
   \<and> active_agents (agentResults parser0) = []
   \<and> \<not> list_all counters_ok (trace run_unspawned_completion parser0)
   \<and> completed_agents (agentResults (last (trace run_unspawned_completion parser0))) = 1
   \<and> total_agents (agentResults (last (trace run_unspawned_completion parser0))) = 0"
  by (simp add: run_unspawned_completion_def example_defs handler_defs apply_envelope_def
      counters_ok_def)

text \<open>
  C6, amended. Start from a parser whose aggregate is the initial one and apply any
  sequence of stream events and state snapshots in which every completion that passes the
  guard names an agent that is active when it is applied. Then
  \<^verbatim>\<open>completed_agents \<le> total_agents\<close> holds in the initial, every intermediate and the
  final state of the parser; and the aggregate that \<^verbatim>\<open>parseStateData\<close> builds from any
  snapshot satisfies it too (the only other outcome of \<^verbatim>\<open>parseStateData\<close> is that it
  throws and builds none).
\<close>

theorem completed_le_total:
  assumes "agentResults st = empty_results t0"
    and "completions_target_active es st"
  shows "list_all counters_ok (trace es st)
       \<and> (case parseStateData now ms state of
            Inl e \<Rightarrow> True
          | Inr r \<Rightarrow> completed_agents r \<le> total_agents r)"
proof -
  from assms(1) have "balanced st" by (simp add: balanced_def empty_results_def)
  from balanced_trace [OF this assms(2)] have "list_all balanced (trace es st)" .
  then have "list_all counters_ok (trace es st)"
    by (auto simp: list_all_iff balanced_counters_ok)
  then show ?thesis by (auto simp add: parseStateData_total split: sum.splits)
qed

theorem completed_le_total_witness:
  "agentResults parser0 = empty_results ''2025-01-01T00:00:00.000Z''
   \<and> completions_target_active run_spawn_complete_snapshot parser0
   \<and> list_all counters_ok (trace run_spawn_complete_snapshot parser0)
   \<and> completed_agents (agentResults (last (trace run_spawn_complete_snapshot parser0))) = 1
   \<and> (case parseStateData ''2025-01-01T00:00:03.000Z'' 1735689603000 snapshot_with_listings of
        Inl e \<Rightarrow> False
      | Inr r \<Rightarrow> completed_agents r \<le> total_agents r)"
proof -
  have h1: "agentResults parser0 = empty_results ''2025-01-01T00:00:00.000Z''"
    by (simp add: parser0_def new_AgentDataParser_def onUpdate_def)
  have h2: "completions_target_active run_spawn_complete_snapshot parser0"
    by (simp add: run_spawn_complete_snapshot_def example_defs handler_defs apply_envelope_def
        targets_active_def is_completion_def event_result_def)
  have h3: "completed_agents (agentResults (last (trace run_spawn_complete_snapshot parser0))) = 1"
    by (simp add: run_spawn_complete_snapshot_def example_defs handler_defs apply_envelope_def)
  have "spread (st_active_agents snapshot_with_listings) = Inr [JStr ''media'']"
    by (simp add: snapshot_with_listings_def)
  then have h4: "\<exists>r. parseStateData ''2025-01-01T00:00:03.000Z'' 1735689603000
      snapshot_with_listings = Inr r"
    by (simp add: parseStateData_def Let_def)
  from completed_le_total [OF h1 h2, of "''2025-01-01T00:00:03.000Z''" 1735689603000
      snapshot_with_listings] h1 h2 h3 h4
  show ?thesis by (auto split: sum.splits)
qed

section \<open>State snapshots\<close>

lemma kind_of_kind_name [simp]: "kind_of (kind_name k) = Some k"
  by (cases k) (simp_all add: kind_of_def)

lemma kind_of_Some: "kind_of s = Some k \<Longrightarrow> s = kind_name k"
  by (auto simp: kind_of_def split: if_splits)

lemma kind_name_inj [simp]: "(kind_name k = kind_name k') = (k = k')"
  by (cases k; cases k'; simp)

lemma switch_agentType_kind:
  "switch_agentType ms key latest r =
     (case kind_of key of
        None \<Rightarrow> Inr r
      | Some k \<Rightarrow>
          (case and_then (get_prop latest ''data'') (shape ms k) of
             Inl e \<Rightarrow> Inl e
           | Inr p \<Rightarrow> Inr (set_slot k p r)))"
  by (auto simp add: switch_agentType_def kind_of_def and_then_def split: sum.splits)

lemma slot_set_slot [simp]: "slot k (set_slot k' p r) = (if k = k' then Some p else slot k r)"
  by (cases k; cases k'; simp)

lemma set_slot_meta [simp]:
  "completed_agents (set_slot k p r) = completed_agents r"
  "total_agents (set_slot k p r) = total_agents r"
  "active_agents (set_slot k p r) = active_agents r"
  "last_updated (set_slot k p r) = last_updated r"
  by (cases k; simp)+

lemma shaped_last_Nil [simp]: "shaped_last ms k [] = None"
  by (simp add: shaped_last_def)

lemma parse_entry_slot:
  "slot k (parse_entry ms (key, dataItems) r) =
     (if key = kind_name k \<and> shaped_last ms k (items_of dataItems) \<noteq> None
      then shaped_last ms k (items_of dataItems) else slot k r)"
  by (auto simp add: parse_entry_def switch_agentType_kind shaped_last_def items_of_def
      split: option.splits sum.splits dest: kind_of_Some)

lemma parse_entry_meta [simp]:
  "active_agents (parse_entry ms e r) = active_agents r"
  "last_updated (parse_entry ms e r) = last_updated r"
  "completed_agents (parse_entry ms e r) =
     completed_agents r + (if entry_counts ms (fst e, items_of (snd e)) then 1 else 0)"
  by (auto simp add: parse_entry_def switch_agentType_kind shaped_last_def entry_counts_def
      items_of_def split: option.splits sum.splits prod.splits)

lemma fold_parse_entry_meta [simp]:
  "active_agents (fold (parse_entry ms) es r) = active_agents r"
  "last_updated (fold (parse_entry ms) es r) = last_updated r"
  "completed_agents (fold (parse_entry ms) es r) =
     completed_agents r
     + length (filter (entry_counts ms) (map (\<lambda>e. (fst e, items_of (snd e))) es))"
  by (induction es arbitrary: r) simp_all

lemma fold_parse_entry_slot:
  "distinct (map fst es) \<Longrightarrow>
   slot k (fold (parse_entry ms) es r) =
     (case map_of (map (\<lambda>e. (fst e, items_of (snd e))) es) (kind_name k) of
        None \<Rightarrow> slot k r
      | Some items \<Rightarrow>
          if shaped_last ms k items \<noteq> None then shaped_last ms k items else slot k r)"
proof (induction es arbitrary: r)
  case Nil
  then show ?case by simp
next
  case (Cons e es)
  obtain key dataItems where e: "e = (key, dataItems)" by (cases e)
  from Cons.prems e have d: "distinct (map fst es)" and fresh: "key \<notin> fst ` set es"
    by simp_all
  show ?case
  proof (cases "key = kind_name k")
    case True
    with fresh have "map_of (map (\<lambda>e. (fst e, items_of (snd e))) es) (kind_name k) = None"
      by (force simp add: map_of_eq_None_iff)
    with True e Cons.IH [OF d] show ?thesis by (simp add: parse_entry_slot)
  next
    case False
    with e Cons.IH [OF d] show ?thesis by (simp add: parse_entry_slot split: option.splits)
  qed
qed

lemma count_key_distinct:
  "distinct (map fst es) \<Longrightarrow>
   length (filter (\<lambda>e. fst e = key \<and> P e) es) =
     (case map_of es key of None \<Rightarrow> 0 | Some items \<Rightarrow> if P (key, items) then 1 else 0)"
proof (induction es)
  case Nil
  then show ?case by simp
next
  case (Cons e es)
  obtain key' items where e: "e = (key', items)" by (cases e)
  from Cons.prems e have d: "distinct (map fst es)" and fresh: "key' \<notin> fst ` set es"
    by simp_all
  show ?case
  proof (cases "key' = key")
    case True
    with fresh have "filter (\<lambda>e. fst e = key \<and> P e) es = []"
      by (auto simp: filter_empty_conv)
    with True e show ?thesis by simp
  next
    case False
    with e Cons.IH [OF d] show ?thesis by simp
  qed
qed

lemma count_known_split:
  "length (filter (\<lambda>e. kind_of (fst e) \<noteq> None \<and> P e) es) =
     length (filter (\<lambda>e. fst e = ''research'' \<and> P e) es)
   + length (filter (\<lambda>e. fst e = ''listings'' \<and> P e) es)
   + length (filter (\<lambda>e. fst e = ''sentiment'' \<and> P e) es)
   + length (filter (\<lambda>e. fst e = ''media'' \<and> P e) es)"
  by (induction es) (auto simp: kind_of_def)

lemma count_split:
  "length (filter P es) =
     length (filter (\<lambda>e. Q e \<and> P e) es) + length (filter (\<lambda>e. \<not> Q e \<and> P e) es)"
  by (induction es) auto

lemma entry_counts_unknown:
  "(kind_of (fst e) = None \<and> entry_counts ms e) = (kind_of (fst e) = None \<and> snd e \<noteq> [])"
  by (auto simp: entry_counts_def)

lemma entry_counts_known:
  "entry_counts ms (kind_name k, items) = (shaped_last ms k items \<noteq> None)"
  by (auto simp: entry_counts_def shaped_last_def)

lemma slot_fresh_results [simp]:
  "slot k \<lparr> listings = None, research = None, sentiment = None, media = None,
            total_agents = t, completed_agents = c, active_agents = a, last_updated = u \<rparr>
     = None"
  by (cases k) simp_all

lemma parseStateData_throws:
  "spread (st_active_agents state) = Inl e \<Longrightarrow> parseStateData now ms state = Inl e"
  by (simp add: parseStateData_def)

lemma parseStateData_fold:
  "spread (st_active_agents state) = Inr agents \<Longrightarrow>
   parseStateData now ms state =
     Inr (let r = fold (parse_entry ms)
                    (case st_agent_data state of None \<Rightarrow> [] | Some entries \<Rightarrow> entries)
                    \<lparr> listings = None, research = None, sentiment = None, media = None,
                      total_agents = 0, completed_agents = 0,
                      active_agents = agents, last_updated = now \<rparr>
          in r\<lparr>total_agents := completed_agents r + length (active_agents r)\<rparr>)"
  by (simp add: parseStateData_def Let_def split: option.splits)

lemma parseStateData_active:
  "parseStateData now ms state = Inr r \<Longrightarrow> spread (st_active_agents state) = Inr (active_agents r)"
  by (auto simp add: parseStateData_def Let_def split: sum.splits option.splits)

lemma distinct_entries_of:
  "distinct (map fst (entries_of state)) \<Longrightarrow>
   distinct (map fst (case st_agent_data state of None \<Rightarrow> [] | Some entries \<Rightarrow> entries))"
  by (simp add: entries_of_def comp_def split: option.splits)

lemma entries_of_map:
  "map (\<lambda>e. (fst e, items_of (snd e)))
     (case st_agent_data state of None \<Rightarrow> [] | Some entries \<Rightarrow> entries) = entries_of state"
  by (simp add: entries_of_def split: option.splits)

lemma parseStateData_slot:
  assumes "distinct (map fst (entries_of state))"
    and "parseStateData now ms state = Inr r"
  shows "slot k r = snapshot_payload ms k state"
proof -
  from assms(2) obtain agents where "spread (st_active_agents state) = Inr agents"
    by (auto simp add: parseStateData_def split: sum.splits)
  from parseStateData_fold [OF this, of now ms] assms(2) show ?thesis
    by (auto simp add: Let_def slot_meta_update
        fold_parse_entry_slot [OF distinct_entries_of [OF assms(1)]] entries_of_map
        snapshot_payload_def split: option.splits)
qed

lemma parseStateData_completed:
  assumes "parseStateData now ms state = Inr r"
  shows "completed_agents r = length (filter (entry_counts ms) (entries_of state))"
proof -
  from assms obtain agents where "spread (st_active_agents state) = Inr agents"
    by (auto simp add: parseStateData_def split: sum.splits)
  from parseStateData_fold [OF this, of now ms] assms show ?thesis
    by (auto simp add: Let_def entries_of_map)
qed

lemma count_kind:
  assumes "distinct (map fst es)"
  shows "length (filter (\<lambda>e. fst e = kind_name k \<and> entry_counts ms e) es) =
         (case map_of es (kind_name k) of None \<Rightarrow> 0
          | Some items \<Rightarrow> if shaped_last ms k items \<noteq> None then 1 else 0)"
  using count_key_distinct [OF assms, of "kind_name k" "entry_counts ms"]
  by (simp add: entry_counts_known split: option.splits)

lemma parseStateData_counts:
  assumes "distinct (map fst (entries_of state))"
    and "parseStateData now ms state = Inr r"
  shows "completed_agents r = populated_slots r + other_entries (entries_of state)"
proof -
  let ?es = "entries_of state"
  have slot_count: "(if slot k r \<noteq> None then 1 else 0) =
      length (filter (\<lambda>e. fst e = kind_name k \<and> entry_counts ms e) ?es)" for k
    by (simp add: parseStateData_slot [OF assms] snapshot_payload_def
        count_kind [OF assms(1)] split: option.splits)
  have "populated_slots r =
      length (filter (\<lambda>e. kind_of (fst e) \<noteq> None \<and> entry_counts ms e) ?es)"
    unfolding count_known_split populated_slots_def
    using slot_count [of Research] slot_count [of Listings] slot_count [of Sentiment]
      slot_count [of Media]
    by (simp split: if_splits)
  moreover have "other_entries ?es =
      length (filter (\<lambda>e. \<not> kind_of (fst e) \<noteq> None \<and> entry_counts ms e) ?es)"
    by (simp add: other_entries_def entry_counts_unknown)
  ultimately show ?thesis
    using count_split [of "entry_counts ms" ?es "\<lambda>e. kind_of (fst e) \<noteq> None"]
    by (simp add: parseStateData_completed [OF assms(2)])
qed

lemmas snapshot_defs =
  apply_state_snapshot_def carries_state_def parseStateData_def parse_entry_def switch_agentType_def
  snapshot_without_active_agents_def
  and_then_def parseListingsData_def parseResearchData_def parseSentimentData_def
  parseMediaData_def js_or_def Let_def

text \<open>
  C4, as stated, fails: the aggregate before the snapshot is not consulted. With the
  \<^verbatim>\<open>listings\<close> slot populated by an earlier completion, a snapshot that carries listings
  data replaces the stored payload by the one shaped from the snapshot.
\<close>

theorem snapshot_overwrites_populated_slot:
  "listings (agentResults parser_listings_done) = Some (listings_payload 5)
   \<and> listings (apply_state_snapshot ''2025-01-01T00:00:03.000Z'' 1735689603000
        snapshot_with_listings (agentResults parser_listings_done))
     = Some (JObj
        [(''agent_type'', JStr ''listings''),
         (''agent_id'', JStr ''listings_7''),
         (''success'', JBool True),
         (''total_found'', JNum 9),
         (''returned_count'', JNum 0),
         (''listings'', JArr []),
         (''market_intelligence'', JUndefined),
         (''search_context'', JUndefined),
         (''recommendations'', JUndefined),
         (''executive_summary'', JUndefined),
         (''key_insights'', JArr []),
         (''search_duration_ms'', JUndefined),
         (''data_sources'', JArr []),
         (''warnings'', JArr [])])
   \<and> listings (apply_state_snapshot ''2025-01-01T00:00:03.000Z'' 1735689603000
        snapshot_with_listings (agentResults parser_listings_done))
     \<noteq> listings (agentResults parser_listings_done)"
  by (simp add: example_defs handler_defs snapshot_defs)

text \<open>
  C4, amended. \<^verbatim>\<open>parseStateData\<close> builds a new aggregate from the snapshot alone, and
  the component replaces the aggregate it shows by it, unless \<^verbatim>\<open>parseStateData\<close> throws.
  Take a snapshot object that passes the component's guard (it has \<^verbatim>\<open>agent_data\<close> or
  \<^verbatim>\<open>current_results\<close>) and whose \<^verbatim>\<open>agent_data\<close>, if it has one, is an object that maps
  keys to arrays of items or to \<^verbatim>\<open>null\<close>.
  \<^item> If \<^verbatim>\<open>active_agents\<close> is missing or is not iterable, \<^verbatim>\<open>parseStateData\<close> throws a
    TypeError, the component catches it, and the aggregate it shows stays as it was.
  \<^item> Otherwise the aggregate it shows afterwards is the new one, whatever it held before:
    \<^verbatim>\<open>active_agents\<close> holds the elements of the snapshot's \<^verbatim>\<open>active_agents\<close>; the slot of
    each kind holds the shaped \<^verbatim>\<open>data\<close> of the last item the snapshot carries for that
    kind, and is empty when the snapshot carries no item for the kind or the shaping
    throws; \<^verbatim>\<open>completed_agents\<close> is the number of populated slots plus the number of
    non-empty entries under keys that are none of the four kinds; \<^verbatim>\<open>total_agents\<close> is
    \<^verbatim>\<open>completed_agents\<close> plus the number of active agents; \<^verbatim>\<open>last_updated\<close> is the time
    of the parse.
\<close>

theorem snapshot_rebuilds_aggregate:
  assumes "carries_state state"
    and "distinct (map fst (entries_of state))"
  shows "case spread (st_active_agents state) of
           Inl e \<Rightarrow>
             parseStateData now ms state = Inl e
             \<and> apply_state_snapshot now ms state shown = shown
         | Inr agents \<Rightarrow>
             parseStateData now ms state = Inr (apply_state_snapshot now ms state shown)
             \<and> active_agents (apply_state_snapshot now ms state shown) = agents
             \<and> slot k (apply_state_snapshot now ms state shown) = snapshot_payload ms k state
             \<and> completed_agents (apply_state_snapshot now ms state shown) =
                 populated_slots (apply_state_snapshot now ms state shown)
                 + other_entries (entries_of state)
             \<and> total_agents (apply_state_snapshot now ms state shown) =
                 completed_agents (apply_state_snapshot now ms state shown) + length agents
             \<and> last_updated (apply_state_snapshot now ms state shown) = now"
proof (cases "spread (st_active_agents state)")
  case (Inl e)
  with assms(1) show ?thesis
    by (simp add: apply_state_snapshot_def parseStateData_throws)
next
  case (Inr agents)
  from parseStateData_fold [OF Inr, of now ms]
  obtain r where r: "parseStateData now ms state = Inr r"
    and last: "last_updated r = now" by (simp add: Let_def)
  from r assms(1) have shown: "apply_state_snapshot now ms state shown = r"
    by (simp add: apply_state_snapshot_def)
  from parseStateData_active [OF r] Inr have active: "active_agents r = agents" by simp
  from parseStateData_total [OF r] active
  have "total_agents r = completed_agents r + length agents" by simp
  with Inr r shown active last parseStateData_slot [OF assms(2) r, of k]
    parseStateData_counts [OF assms(2) r]
  show ?thesis by simp
qed

theorem snapshot_rebuilds_aggregate_witness:
  "carries_state snapshot_with_listings
   \<and> distinct (map fst (entries_of snapshot_with_listings))
   \<and> active_agents (apply_state_snapshot ''2025-01-01T00:00:03.000Z'' 1735689603000
        snapshot_with_listings (agentResults parser_listings_done)) = [JStr ''media'']
   \<and> slot Research (apply_state_snapshot ''2025-01-01T00:00:03.000Z'' 1735689603000
        snapshot_with_listings (agentResults parser_listings_done)) = None
   \<and> completed_agents (apply_state_snapshot ''2025-01-01T00:00:03.000Z'' 1735689603000
        snapshot_with_listings (agentResults parser_listings_done))
       = populated_slots (apply_state_snapshot ''2025-01-01T00:00:03.000Z'' 1735689603000
        snapshot_with_listings (agentResults parser_listings_done)) + 0
   \<and> total_agents (apply_state_snapshot ''2025-01-01T00:00:03.000Z'' 1735689603000
        snapshot_with_listings (agentResults parser_listings_done))
       = completed_agents (apply_state_snapshot ''2025-01-01T00:00:03.000Z'' 1735689603000
        snapshot_with_listings (agentResults parser_listings_done)) + 1
   \<and> carries_state snapshot_without_active_agents
   \<and> distinct (map fst (entries_of snapshot_without_active_agents))
   \<and> parseStateData ''2025-01-01T00:00:03.000Z'' 1735689603000 snapshot_without_active_agents
       = Inl TypeError
   \<and> apply_state_snapshot ''2025-01-01T00:00:03.000Z'' 1735689603000
        snapshot_without_active_agents (agentResults parser_listings_done)
       = agentResults parser_listings_done"
proof -
  have h0: "carries_state snapshot_with_listings"
    by (simp add: carries_state_def snapshot_with_listings_def)
  have h: "distinct (map fst (entries_of snapshot_with_listings))"
    by (simp add: entries_of_def snapshot_with_listings_def)
  have g0: "carries_state snapshot_without_active_agents"
    by (simp add: carries_state_def snapshot_without_active_agents_def)
  have g: "distinct (map fst (entries_of snapshot_without_active_agents))"
    by (simp add: entries_of_def snapshot_without_active_agents_def)
  have vals: "snapshot_payload 1735689603000 Research snapshot_with_listings = None"
    "other_entries (entries_of snapshot_with_listings) = 0"
    "spread (st_active_agents snapshot_with_listings) = Inr [JStr ''media'']"
    "spread (st_active_agents snapshot_without_active_agents) = Inl TypeError"
    by (simp_all add: snapshot_payload_def entries_of_def snapshot_with_listings_def
        snapshot_without_active_agents_def other_entries_def kind_of_def items_of_def)
  from snapshot_rebuilds_aggregate [OF h0 h, of "''2025-01-01T00:00:03.000Z''" 1735689603000
      "agentResults parser_listings_done" Research]
    snapshot_rebuilds_aggregate [OF g0 g, of "''2025-01-01T00:00:03.000Z''" 1735689603000
      "agentResults parser_listings_done" Research]
    vals h0 h g0 g
  show ?thesis by simp
qed

section \<open>The decoder\<close>

lemma trim_Nil_iff: "(trim s = []) = list_all js_whitespace s"
proof -
  have "(\<forall>x\<in>set (dropWhile js_whitespace s). js_whitespace x)
          = (dropWhile js_whitespace s = [])"
    using hd_dropWhile [of js_whitespace s]
    by (cases "dropWhile js_whitespace s") (auto dest: set_dropWhileD)
  then show ?thesis
    by (simp add: trim_def dropWhile_eq_Nil_conv list_all_iff)
qed

lemma apply_event_JNull [simp]: "apply_event now JNull st = st"
  by (simp add: apply_event_def dispatch_event_def)

text \<open>
  C7, as stated, fails: the decoder does not look at the type discriminant. A line whose
  body is a well-formed \<^verbatim>\<open>chat_response\<close> event is returned as parsed, not as \<^verbatim>\<open>null\<close>.
\<close>

theorem decoder_returns_unrecognized_event:
  \<open>parseStreamingEvent sample_JSON_parse
      ''data: {"type":"chat_response","data":{"response":"hello"}}''
    = JObj [(''type'', JStr ''chat_response''),
            (''data'', JObj [(''response'', JStr ''hello'')])]
   \<and> parseStreamingEvent sample_JSON_parse
      ''data: {"type":"chat_response","data":{"response":"hello"}}'' \<noteq> JNull\<close>
  by (simp add: parseStreamingEvent_def try_parseStreamingEvent_def event_body_def
      startsWith_def trim_def js_whitespace_def sample_JSON_parse_def)

text \<open>
  C7, amended. For every line whose body, after the \<^verbatim>\<open>data: \<close> marker, is neither blank
  nor \<^verbatim>\<open>[DONE]\<close> and parses as JSON, the decoder returns the parsed value as it is,
  whatever its type discriminant. \<^verbatim>\<open>onData\<close> then applies that value; when its type is
  neither \<^verbatim>\<open>agent_spawn\<close> nor \<^verbatim>\<open>agent_complete\<close>, the dispatch calls no handler, so the
  parser and its aggregate stay as they were.
\<close>

theorem unrecognized_event_is_decoded_and_ignored:
  assumes "JSON_parse (event_body line) = Inr v"
    and "\<not> list_all js_whitespace (event_body line)"
    and "event_body line \<noteq> ''[DONE]''"
  shows "parseStreamingEvent JSON_parse line = v
       \<and> onData_string JSON_parse now line st = apply_event now v st
       \<and> (if field v ''type'' = JStr ''agent_spawn'' \<or> field v ''type'' = JStr ''agent_complete''
          then True
          else onData_string JSON_parse now line st = st)"
proof -
  from assms have dec: "parseStreamingEvent JSON_parse line = v"
    by (simp add: parseStreamingEvent_def try_parseStreamingEvent_def trim_Nil_iff Let_def)
  have "apply_event now v st = st"
    if "field v ''type'' \<noteq> JStr ''agent_spawn''" "field v ''type'' \<noteq> JStr ''agent_complete''"
  proof -
    from that have "\<not> is_spawn v" "\<not> is_completion v"
      by (simp_all add: is_spawn_def is_completion_def)
    then show ?thesis by (rule apply_event_other)
  qed
  with dec show ?thesis by (simp add: onData_string_def)
qed

theorem unrecognized_event_is_decoded_and_ignored_witness:
  \<open>parseStreamingEvent sample_JSON_parse
      ''data: {"type":"chat_response","data":{"response":"hello"}}''
    = JObj [(''type'', JStr ''chat_response''),
            (''data'', JObj [(''response'', JStr ''hello'')])]
   \<and> onData_string sample_JSON_parse ''2025-01-01T00:00:05.000Z''
      ''data: {"type":"chat_response","data":{"response":"hello"}}'' parser_listings_active
    = parser_listings_active
   \<and> parseStreamingEvent sample_JSON_parse
      ''data: {"type":"agent_spawn","data":{"agent":"listings","priority":"foreground","agent_id":"listings_1"}}''
    = AgentSpawnEvent ''listings'' ''foreground'' ''listings_1''\<close>
proof -
  let ?line = \<open>''data: {"type":"chat_response","data":{"response":"hello"}}''\<close>
  let ?v = "JObj [(''type'', JStr ''chat_response''),
                  (''data'', JObj [(''response'', JStr ''hello'')])]"
  let ?line2 = \<open>''data: {"type":"agent_spawn","data":{"agent":"listings","priority":"foreground","agent_id":"listings_1"}}''\<close>
  let ?v2 = "AgentSpawnEvent ''listings'' ''foreground'' ''listings_1''"
  have body: \<open>event_body ?line = ''{"type":"chat_response","data":{"response":"hello"}}''\<close>
    by (simp add: event_body_def startsWith_def)
  have body2: \<open>event_body ?line2 = ''{"type":"agent_spawn","data":{"agent":"listings","priority":"foreground","agent_id":"listings_1"}}''\<close>
    by (simp add: event_body_def startsWith_def)
  have h1: "sample_JSON_parse (event_body ?line) = Inr ?v"
    by (simp add: body sample_JSON_parse_def)
  have h2: "\<not> list_all js_whitespace (event_body ?line)"
    by (simp add: body js_whitespace_def)
  have h3: "event_body ?line \<noteq> ''[DONE]''"
    by (simp add: body)
  have g1: "sample_JSON_parse (event_body ?line2) = Inr ?v2"
    by (simp add: body2 sample_JSON_parse_def)
  have g2: "\<not> list_all js_whitespace (event_body ?line2)"
    by (simp add: body2 js_whitespace_def)
  have g3: "event_body ?line2 \<noteq> ''[DONE]''"
    by (simp add: body2)
  note first = unrecognized_event_is_decoded_and_ignored [of sample_JSON_parse ?line ?v
      "''2025-01-01T00:00:05.000Z''" parser_listings_active, OF h1 h2 h3]
  note second = unrecognized_event_is_decoded_and_ignored [of sample_JSON_parse ?line2 ?v2
      "''2025-01-01T00:00:05.000Z''" parser_listings_active, OF g1 g2 g3]
  from first have a: "parseStreamingEvent sample_JSON_parse ?line = ?v"
    by (rule conjunct1)
  from first have "if field ?v ''type'' = JStr ''agent_spawn''
        \<or> field ?v ''type'' = JStr ''agent_complete''
      then True
      else onData_string sample_JSON_parse ''2025-01-01T00:00:05.000Z'' ?line
             parser_listings_active = parser_listings_active"
    by (rule conjunct2 [THEN conjunct2])
  then have b: "onData_string sample_JSON_parse ''2025-01-01T00:00:05.000Z'' ?line
      parser_listings_active = parser_listings_active"
    by simp
  from second have c: "parseStreamingEvent sample_JSON_parse ?line2 = ?v2"
    by (rule conjunct1)
  from a b c show ?thesis by (intro conjI)
qed

text \<open>
  C8. The decoder is a total function into values: whatever the \<^verbatim>\<open>try\<close> block throws is
  turned into \<^verbatim>\<open>null\<close>. Whenever the body after the \<^verbatim>\<open>data: \<close> marker is empty or
  whitespace only, is the literal \<^verbatim>\<open>[DONE]\<close>, or makes \<^verbatim>\<open>JSON.parse\<close> throw, the decoder
  returns \<^verbatim>\<open>null\<close>, and \<^verbatim>\<open>onData\<close> then leaves the parser and its aggregate untouched.
\<close>

theorem decoder_null_on_noise:
  assumes "list_all js_whitespace (event_body line)
         \<or> event_body line = ''[DONE]''
         \<or> isl (JSON_parse (event_body line))"
  shows "parseStreamingEvent JSON_parse line = JNull
       \<and> onData_string JSON_parse now line st = st"
proof -
  from assms have "parseStreamingEvent JSON_parse line = JNull"
    by (auto simp add: parseStreamingEvent_def try_parseStreamingEvent_def trim_Nil_iff
        Let_def split: sum.splits)
  then show ?thesis by (simp add: onData_string_def)
qed

theorem decoder_null_on_noise_witness:
  "isl (sample_JSON_parse (event_body ''data: not-json''))
   \<and> parseStreamingEvent sample_JSON_parse ''data: not-json'' = JNull
   \<and> onData_string sample_JSON_parse ''2025-01-01T00:00:05.000Z'' ''data: not-json''
       parser_listings_active = parser_listings_active
   \<and> parseStreamingEvent sample_JSON_parse ''data: [DONE]'' = JNull
   \<and> parseStreamingEvent sample_JSON_parse ''data:   '' = JNull"
proof -
  have h1: "isl (sample_JSON_parse (event_body ''data: not-json''))"
    by (simp add: event_body_def startsWith_def sample_JSON_parse_def)
  have h2: "event_body ''data: [DONE]'' = ''[DONE]''"
    by (simp add: event_body_def startsWith_def)
  have h3: "list_all js_whitespace (event_body ''data:   '')"
    by (simp add: event_body_def startsWith_def js_whitespace_def)
  from decoder_null_on_noise [of "''data: not-json''" sample_JSON_parse
         "''2025-01-01T00:00:05.000Z''" parser_listings_active]
       decoder_null_on_noise [of "''data: [DONE]''" sample_JSON_parse]
       decoder_null_on_noise [of "''data:   ''" sample_JSON_parse]
       h1 h2 h3
  show ?thesis by simp
qed

section \<open>The stream proxies: upstream errors\<close>

lemma json_escape_plain:
  assumes "32 \<le> (of_char c :: nat)" and "c \<noteq> CHR 0x22" and "c \<noteq> CHR 0x5C"
  shows "json_escape_char c = [c]"
  using assms by (auto simp add: json_escape_char_def)

lemma json_escape_digit:
  assumes "d < 10"
  shows "json_escape_char (char_of (48 + d :: nat)) = [char_of (48 + d)]"
proof (rule json_escape_plain)
  from assms have v: "of_char (char_of (48 + d)) = 48 + d" by simp
  then show "32 \<le> (of_char (char_of (48 + d)) :: nat)" by simp
  have "(of_char (CHR 0x22) :: nat) = 34" "(of_char (CHR 0x5C) :: nat) = 92" by simp_all
  with v assms show "char_of (48 + d) \<noteq> CHR 0x22" "char_of (48 + d) \<noteq> CHR 0x5C"
    by fastforce+
qed

lemma json_escape_show_nat: "concat (map json_escape_char (show_nat n)) = show_nat n"
proof (induction n rule: show_nat.induct)
  case (1 n)
  show ?case
  proof (cases "n < 10")
    case True
    then show ?thesis by (subst (1 2) show_nat.simps) (simp add: json_escape_digit)
  next
    case False
    with 1 show ?thesis
      by (subst (1 2) show_nat.simps) (simp add: json_escape_digit)
  qed
qed

lemma json_string_backend_returned:
  "json_string (''Backend returned '' @ show_nat n) =
     [CHR 0x22] @ ''Backend returned '' @ show_nat n @ [CHR 0x22]"
  by (simp add: json_string_def json_escape_show_nat json_escape_char_def)

lemma json_string_keys:
  \<open>json_string ''type'' = ''"type"''\<close>
  \<open>json_string ''error'' = ''"error"''\<close>
  \<open>json_string ''errorText'' = ''"errorText"''\<close>
  \<open>json_string ''details'' = ''"details"''\<close>
  \<open>json_string ''Vehicle stream failed'' = ''"Vehicle stream failed"''\<close>
  by (simp_all add: json_string_def json_escape_char_def)

lemma show_nat_503: "show_nat 503 = ''503''"
  by code_simp

text \<open>
  C9, as stated, fails for the vehicle-profile endpoint: on an upstream 503 it answers
  with HTTP status 500 and a JSON body, not with a 200 event stream.
\<close>

theorem vehicle_endpoint_answers_500_json:
  "\<not> ok upstream_503
   \<and> resp_status (POST_vehicle_stream fetch_503 1735689600000 (Inr sample_request)) = 500
   \<and> resp_headers (POST_vehicle_stream fetch_503 1735689600000 (Inr sample_request))
       = [(''Content-Type'', ''application/json'')]
   \<and> resp_status (POST_vehicle_stream fetch_503 1735689600000 (Inr sample_request)) \<noteq> 200"
  by (simp add: POST_vehicle_stream_def fetch_503_def upstream_503_def ok_def
      vehicle_error_response_def)

text \<open>
  C9, amended. When the upstream fetch yields a status outside 200 to 299:
  \<^item> the chat-stream endpoint responds with status 200 and content type
    \<^verbatim>\<open>text/event-stream\<close>, its body being one error envelope
    \<^verbatim>\<open>data: {"type":"error","errorText":"Backend returned <status>"}\<close> followed by
    \<^verbatim>\<open>data: [DONE]\<close>, each ended by a blank line;
  \<^item> the vehicle-profile endpoint responds with status 500 and content type
    \<^verbatim>\<open>application/json\<close>, its body being
    \<^verbatim>\<open>{"error":"Vehicle stream failed","details":"Backend returned <status>"}\<close>.
\<close>

theorem upstream_error_responses:
  assumes \<open>\<not> ok up\<close>
    and \<open>fetch (cargeek_backendBody now_ms body) = Inr up\<close>
    and \<open>fetch (vehicle_backendBody now_ms body) = Inr up\<close>
  shows \<open>POST_cargeek_stream fetch now_ms (Inr body) =
          \<lparr> resp_status = 200,
            resp_headers =
              [(''Content-Type'', ''text/event-stream''),
               (''Cache-Control'', ''no-cache''),
               (''Connection'', ''keep-alive''),
               (''x-vercel-ai-ui-message-stream'', ''v1'')],
            resp_body = Text
              (''data: {"type":"error","errorText":"Backend returned '' @ show_nat (up_status up)
               @ ''"}'' @ [newline, newline] @ ''data: [DONE]'' @ [newline, newline]) \<rparr>
       \<and> POST_vehicle_stream fetch now_ms (Inr body) =
          \<lparr> resp_status = 500,
            resp_headers = [(''Content-Type'', ''application/json'')],
            resp_body = Text
              (''{"error":"Vehicle stream failed","details":"Backend returned ''
               @ show_nat (up_status up) @ ''"}'') \<rparr>\<close>
  using assms
  by (simp add: POST_cargeek_stream_def POST_vehicle_stream_def cargeek_error_response_def
      vehicle_error_response_def error_message_def
      json_string_backend_returned [simplified] json_string_keys)

theorem upstream_error_responses_witness:
  \<open>\<not> ok upstream_503
   \<and> resp_status (POST_cargeek_stream fetch_503 1735689600000 (Inr sample_request)) = 200
   \<and> resp_body (POST_cargeek_stream fetch_503 1735689600000 (Inr sample_request)) =
       Text (''data: {"type":"error","errorText":"Backend returned 503"}''
             @ [newline, newline] @ ''data: [DONE]'' @ [newline, newline])
   \<and> resp_status (POST_vehicle_stream fetch_503 1735689600000 (Inr sample_request)) = 500
   \<and> resp_body (POST_vehicle_stream fetch_503 1735689600000 (Inr sample_request)) =
       Text ''{"error":"Vehicle stream failed","details":"Backend returned 503"}''\<close>
proof -
  have h1: "\<not> ok upstream_503"
    by (simp add: ok_def upstream_503_def)
  have h2: "fetch_503 (cargeek_backendBody 1735689600000 sample_request) = Inr upstream_503"
    and h3: "fetch_503 (vehicle_backendBody 1735689600000 sample_request) = Inr upstream_503"
    by (simp_all add: fetch_503_def)
  have "up_status upstream_503 = 503"
    by (simp add: upstream_503_def)
  with upstream_error_responses [OF h1 h2 h3] h1 show ?thesis
    by (simp add: show_nat_503)
qed

section \<open>The chat-stream transform\<close>

lemma split_not_Nil [simp]: "split sep xs \<noteq> []"
  by (induction xs) (auto split: list.splits)

lemma split_append:
  "split sep (xs @ ys) = butlast (split sep xs) @ split sep (last (split sep xs) @ ys)"
proof (induction xs)
  case Nil
  then show ?case by simp
next
  case (Cons c cs)
  show ?case
  proof (cases "c = sep")
    case True
    with Cons show ?thesis by simp
  next
    case False
    obtain l ls where S: "split sep cs = l # ls" by (cases "split sep cs") auto
    show ?thesis
    proof (cases ls)
      case Nil
      with S False Cons show ?thesis by (simp split: list.splits)
    next
      case (Cons m ms)
      with S False Cons.IH show ?thesis by (simp split: list.splits)
    qed
  qed
qed

lemma last_split_no_sep: "sep \<notin> set (last (split sep xs))"
proof (induction xs)
  case Nil
  then show ?case by simp
next
  case (Cons c cs)
  obtain l ls where S: "split sep cs = l # ls" by (cases "split sep cs") auto
  with Cons show ?case by (cases ls) auto
qed

lemma split_no_sep: "sep \<notin> set xs \<Longrightarrow> split sep xs = [xs]"
  by (induction xs) auto

lemma utf8_decode_append:
  "utf8_decode d (xs @ ys) =
     (case utf8_decode d xs of
        (d1, out1) \<Rightarrow> (case utf8_decode d1 ys of (d2, out2) \<Rightarrow> (d2, out1 @ out2)))"
  by (induction xs arbitrary: d) (auto split: prod.splits)

lemma serialize_append:
  "serialize seen (xs @ ys) =
     (case serialize seen xs of
        (seen1, out1) \<Rightarrow> (case serialize seen1 ys of (seen2, out2) \<Rightarrow> (seen2, out1 @ out2)))"
  by (cases xs; cases ys) (auto simp add: serialize_def)

lemma TextDecoder_decode_append:
  "TextDecoder_decode td (xs @ ys) =
     (case TextDecoder_decode td xs of
        (td1, text1) \<Rightarrow>
          (case TextDecoder_decode td1 ys of (td2, text2) \<Rightarrow> (td2, text1 @ text2)))"
  by (simp add: TextDecoder_decode_def utf8_decode_append serialize_append split: prod.splits)

lemma String_trim_Nil_iff: "(String_trim s = []) = list_all white_space s"
proof -
  have "(\<forall>x\<in>set (dropWhile white_space s). white_space x)
          = (dropWhile white_space s = [])"
    using hd_dropWhile [of white_space s]
    by (cases "dropWhile white_space s") (auto dest: set_dropWhileD)
  then show ?thesis
    by (simp add: String_trim_def dropWhile_eq_Nil_conv list_all_iff)
qed

lemma startsWith_data_not_blank:
  assumes "startsWith s (literal ''data: '')"
  shows "String_trim s \<noteq> []"
proof -
  from assms have "(0x64 :: code_unit) \<in> set s"
    by (cases s) (auto simp: startsWith_def literal_def)
  moreover have "\<not> white_space 0x64" by (simp add: white_space_def)
  ultimately show ?thesis by (auto simp: String_trim_Nil_iff list_all_iff)
qed

lemma flush_eq:
  "flush buffer =
     (if startsWith buffer (literal ''data: '')
      then [TextEncoder_encode (buffer @ [LF, LF])] else [])"
  by (simp add: flush_def startsWith_data_not_blank)

lemma pump_Done:
  "LF \<notin> set buffer \<Longrightarrow>
   pump td buffer chunks Done =
     (map TextEncoder_encode
        (forwarded_lines (buffer @ snd (TextDecoder_decode td (concat chunks)))), Closed)"
proof (induction chunks arbitrary: td buffer)
  case Nil
  then show ?case
    by (simp add: forwarded_lines_def split_no_sep flush_eq TextDecoder_decode_def
        serialize_def)
next
  case (Cons chunk chunks)
  obtain td' decoded where D: "TextDecoder_decode td chunk = (td', decoded)"
    by (cases "TextDecoder_decode td chunk")
  let ?lines = "split LF (buffer @ decoded)"
  let ?rest = "snd (TextDecoder_decode td' (concat chunks))"
  have "LF \<notin> set (last ?lines)" by (rule last_split_no_sep)
  from Cons.IH [OF this]
  have rest: "pump td' (last ?lines) chunks Done
               = (map TextEncoder_encode (forwarded_lines (last ?lines @ ?rest)), Closed)" .
  have whole: "snd (TextDecoder_decode td (chunk @ concat chunks)) = decoded @ ?rest"
    by (simp add: TextDecoder_decode_append D split: prod.splits)
  have "split LF ((buffer @ decoded) @ ?rest) = butlast ?lines @ split LF (last ?lines @ ?rest)"
    by (rule split_append)
  then show ?case
    by (simp add: transform_def D rest whole forwarded_lines_def Let_def butlast_append)
qed


lemma unat_byte_less: "unat (b :: byte) < 256"
  using unsigned_less [of b, where 'a = nat] by simp

lemma unat_ucast_byte: "unat (ucast (b :: byte) :: code_unit) = unat b"
  using unat_byte_less [of b] by (simp add: unsigned_ucast_eq take_bit_nat_eq_self_iff)

lemma inj_ucast_byte: "inj (ucast :: byte \<Rightarrow> code_unit)"
proof (rule injI)
  fix a b :: byte
  assume "(ucast a :: code_unit) = ucast b"
  then have "unat (ucast a :: code_unit) = unat (ucast b :: code_unit)" by simp
  then show "a = b" by (simp add: unat_ucast_byte word_unat_eq_iff)
qed

lemma split_map:
  "inj f \<Longrightarrow> split (f sep) (map f xs) = map (map f) (split sep xs)"
  by (induction xs) (auto simp add: inj_eq split: list.splits)

lemma startsWith_map:
  "inj f \<Longrightarrow> startsWith (map f s) (map f p) = startsWith s p"
  unfolding startsWith_def length_map by (metis inj_map take_map injD)

lemma literal_data_ucast:
  "(literal ''data: '' :: code_unit list) = map ucast (literal ''data: '' :: byte list)"
  by (simp add: literal_def)

lemma LF_ucast: "(LF :: code_unit) = ucast (LF :: byte)"
  by (simp add: LF_def)

lemma forwarded_lines_ucast:
  "forwarded_lines (map ucast bs :: code_unit list) =
     map (map ucast) (forwarded_lines (bs :: byte list))"
  unfolding forwarded_lines_def Let_def literal_data_ucast LF_ucast
  by (simp add: split_map [OF inj_ucast_byte] startsWith_map [OF inj_ucast_byte]
      map_butlast [symmetric] last_map filter_map comp_def drop_map)

lemma ascii_utf8_decode:
  "list_all ascii bs \<Longrightarrow> utf8_decode new_utf8_decoder bs = (new_utf8_decoder, map unat bs)"
  by (induction bs) (simp_all add: utf8_step_def lead_byte_def ascii_def new_utf8_decoder_def)

lemma ascii_decoded_text:
  assumes "list_all ascii bs"
  shows "decoded_text bs = map ucast bs"
proof -
  have small: "unat b < 0x10000" for b :: byte
    using unat_byte_less [of b] by simp
  have "serialize False (map unat bs) = (bs \<noteq> [], map unat bs)"
  proof (cases bs)
    case Nil
    then show ?thesis by (simp add: serialize_def)
  next
    case (Cons b bs')
    from unat_byte_less [of b] have "unat b \<noteq> 0xFEFF" by simp
    with Cons show ?thesis by (simp add: serialize_def)
  qed
  moreover have "concat (map code_units (map unat bs)) = map ucast bs"
    by (induction bs) (simp_all add: code_units_def small)
  ultimately show ?thesis
    by (simp add: decoded_text_def TextDecoder_decode_def new_TextDecoder_def
        ascii_utf8_decode [OF assms])
qed

lemma scalar_values_Cons:
  "\<not> leading_surrogate u \<Longrightarrow> \<not> trailing_surrogate u \<Longrightarrow>
   scalar_values (u # us) = unat u # scalar_values us"
  by (cases us) simp_all

lemma ascii_encode:
  "list_all ascii bs \<Longrightarrow> TextEncoder_encode (map ucast bs) = bs"
proof (induction bs)
  case Nil
  then show ?case by (simp add: TextEncoder_encode_def)
next
  case (Cons b bs)
  then have b: "b \<le> 0x7F" by (simp add: ascii_def)
  then have u: "(ucast b :: code_unit) \<le> 0x7F"
    by (simp add: word_le_nat_alt unat_ucast_byte)
  then have "\<not> leading_surrogate (ucast b)" "\<not> trailing_surrogate (ucast b)"
    by (auto simp add: leading_surrogate_def trailing_surrogate_def word_le_nat_alt)
  moreover have "unat (ucast b :: code_unit) = unat b"
    by (rule unat_ucast_byte)
  moreover from b have "unat b \<le> 0x7F" by (simp add: word_le_nat_alt)
  ultimately show ?case using Cons
    by (simp add: TextEncoder_encode_def scalar_values_Cons utf8_encode_def)
qed

lemma set_split: "piece \<in> set (split sep xs) \<Longrightarrow> set piece \<subseteq> set xs"
proof (induction xs arbitrary: piece)
  case Nil
  then show ?case by simp
next
  case (Cons c cs)
  obtain l ls where S: "split sep cs = l # ls" by (cases "split sep cs") auto
  with Cons.IH [of l] have l: "set l \<subseteq> set cs" by simp
  from S Cons.IH have ls: "set p \<subseteq> set cs" if "p \<in> set ls" for p using that by simp
  from Cons.prems S l ls show ?case by (auto split: if_splits)
qed

lemma ascii_forwarded_lines:
  assumes "list_all ascii bs"
  shows "list_all (list_all ascii) (forwarded_lines bs)"
proof -
  have pieces: "list_all ascii piece" if "piece \<in> set (split LF bs)" for piece
    using set_split [OF that] assms by (auto simp add: list_all_iff)
  have lit: "list_all ascii (literal ''data: '')" "ascii LF"
    by (simp_all add: literal_def ascii_def LF_def)
  have l: "list_all ascii (last (split LF bs))" by (rule pieces) simp
  have b: "list_all ascii (drop 6 piece)" if "piece \<in> set (butlast (split LF bs))" for piece
    using pieces [OF in_set_butlastD [OF that]]
    by (auto simp add: list_all_iff dest: in_set_dropD)
  from lit l b show ?thesis
    by (auto simp add: forwarded_lines_def Let_def list_all_iff)
qed

lemma ascii_pump:
  assumes "list_all ascii (concat chunks)"
  shows "pump new_TextDecoder [] chunks Done = (forwarded_lines (concat chunks), Closed)"
proof -
  have "map TextEncoder_encode (map (map ucast) ls) = ls" if "list_all (list_all ascii) ls" for ls
    using that by (induction ls) (simp_all add: ascii_encode)
  from this [OF ascii_forwarded_lines [OF assms]] show ?thesis
    using pump_Done [of "[]" new_TextDecoder chunks]
    by (simp add: ascii_decoded_text [OF assms, unfolded decoded_text_def] forwarded_lines_ucast)
qed

lemmas codec_defs =
  TextDecoder_decode_def new_TextDecoder_def new_utf8_decoder_def utf8_step_def lead_byte_def
  serialize_def code_units_def TextEncoder_encode_def utf8_encode_def leading_surrogate_def
  trailing_surrogate_def literal_def LF_def Let_def

text \<open>
  C10, as stated, fails: the transform does not work on the upstream bytes but on the text
  that a streaming \<^verbatim>\<open>TextDecoder\<close> makes of them, and forwards the encoding of that text.
  \<^item> A body with a byte that is not UTF-8 is not forwarded unmodified: the byte \<^verbatim>\<open>0xFF\<close>
    arrives as \<^verbatim>\<open>EF BF BD\<close>, the encoding of U+FFFD.
  \<^item> A line that begins with a byte order mark does not begin with \<^verbatim>\<open>data: \<close>, yet it
    is forwarded, without the mark.
  \<^item> An unfinished last line is not flushed as it is: the bytes of an unfinished UTF-8
    sequence at its end stay in the decoder and are lost.
  In each case the second line gives what the claim describes for the same bytes.
\<close>

theorem transform_rewrites_invalid_bytes:
  "pump new_TextDecoder [] chunks_invalid_byte Done
     = ([literal ''data: '' @ [0xEF, 0xBF, 0xBD] @ [LF, LF]], Closed)
   \<and> forwarded_lines (concat chunks_invalid_byte) = [literal ''data: '' @ [0xFF] @ [LF, LF]]
   \<and> pump new_TextDecoder [] chunks_invalid_byte Done
       \<noteq> (forwarded_lines (concat chunks_invalid_byte), Closed)
   \<and> pump new_TextDecoder [] chunks_BOM Done = ([literal ''data: x'' @ [LF, LF]], Closed)
   \<and> forwarded_lines (concat chunks_BOM) = []
   \<and> pump new_TextDecoder [] chunks_truncated Done = ([literal ''data: caf'' @ [LF, LF]], Closed)
   \<and> forwarded_lines (concat chunks_truncated) = [literal ''data: caf'' @ [0xC3] @ [LF, LF]]"
  by (simp add: chunks_invalid_byte_def chunks_BOM_def chunks_truncated_def transform_def
      flush_def String_trim_def white_space_def forwarded_lines_def startsWith_def codec_defs)

text \<open>
  C10, amended. However the upstream bytes are cut into chunks, the chunks that the
  transform has enqueued when the upstream ends are the UTF-8 encodings of the lines that
  the specification describes, taken on the decoded text of the whole upstream: each
  complete line of the text that begins with \<^verbatim>\<open>data: \<close>, re-emitted as \<^verbatim>\<open>data: \<close>, its
  body and two newlines; no other complete line; and the unfinished last line of the text
  only if it begins with \<^verbatim>\<open>data: \<close>. The stream is then closed. When every upstream
  byte is ASCII the decoded text is the upstream itself, so that the forwarded bodies are
  the upstream bodies, byte for byte.
\<close>

theorem transform_forwards_data_lines:
  "pump new_TextDecoder [] chunks Done
     = (map TextEncoder_encode (forwarded_lines (decoded_text (concat chunks))), Closed)
   \<and> (list_all ascii (concat chunks) \<longrightarrow>
        pump new_TextDecoder [] chunks Done = (forwarded_lines (concat chunks), Closed))"
  using pump_Done [of "[]" new_TextDecoder chunks] ascii_pump [of chunks]
  by (simp add: decoded_text_def)

theorem transform_forwards_data_lines_witness:
  \<open>list_all ascii (concat sample_chunks)
   \<and> pump new_TextDecoder [] sample_chunks Done =
     ([literal ''data: {"type":"text-delta"}'' @ [LF, LF],
       literal ''data: [DONE]'' @ [LF, LF],
       literal ''data: tail'' @ [LF, LF]], Closed)\<close>
proof -
  have h: "list_all ascii (concat sample_chunks)"
    by (simp add: sample_chunks_def ascii_def literal_def LF_def)
  have \<open>forwarded_lines (concat sample_chunks) =
     [literal ''data: {"type":"text-delta"}'' @ [LF, LF],
       literal ''data: [DONE]'' @ [LF, LF],
       literal ''data: tail'' @ [LF, LF]]\<close>
    by (simp add: forwarded_lines_def sample_chunks_def literal_def LF_def startsWith_def)
  with transform_forwards_data_lines [of sample_chunks, THEN conjunct2, rule_format, OF h] h
  show ?thesis by simp
qed

end
